theory Spec2Isabelle
  imports Complex_Main
begin

section \<open>The file manager component: data model\<close>

text \<open>
  The development follows the richest variant of the \<open>FileManager\<close> React component
  (folder tree cache, chunked upload, existence polling).  A handler is a function on an
  explicit \<open>world\<close>: the component's state variables together with the log of the
  external calls issued so far (token acquisitions and HTTP requests) and the warnings
  and errors written to the console.  The identity provider and the gateway API are a
  \<open>backend\<close>: deterministic functions of the history of calls, so that an arbitrary
  server behaviour (including failures at any point) is an arbitrary \<open>backend\<close>.
  A handler reads the state variables captured by its closure from the world it starts
  in; functional updates (\<open>setX(prev => ...)\<close>) apply to the threaded world.
  Informational \<open>console.log\<close> output and the blocking \<open>alert\<close> are not recorded.
\<close>

datatype js_error =
    TypeError | InvalidCharacterError | URIError | SyntaxError
  | RequestFailed | TokenAcquisitionFailed

record file_entry =
  fe_name :: string
  fe_fullPath :: "string option"
  fe_size :: nat

record folder_entry =
  fd_name :: string
  fd_path :: string
  fd_type :: "string option"
  fd_children :: "nat option"

text \<open>The browser's \<open>File\<close> object as far as the component reads it.\<close>

record upload_file =
  uf_name :: string
  uf_size :: nat
  uf_type :: string

record progress =
  pr_current :: nat
  pr_total :: nat
  pr_filename :: string
  pr_committing :: bool

record roles =
  isReader :: bool
  isUploader :: bool
  isAdmin :: bool

text \<open>
  HTTP requests, each with the bearer token of its \<open>Authorization\<close> header first.  The
  optional argument of the listing and upload requests is the \<open>?folder=\<close> query
  parameter (before URI encoding), absent when the URL carries no query.
\<close>

datatype request =
    GET_files string "string option"
  | POST_files string "string option" upload_file
  | POST_chunked string string nat nat string nat nat
      \<comment> \<open>bearer, filename, chunkIndex, totalChunks, folder, slice start, slice end\<close>
  | POST_commit string string nat string string
      \<comment> \<open>bearer, filename, totalChunks, contentType, folder\<close>
  | GET_exists string string
  | POST_create_folder string string

datatype call = AcquireTokenSilent | Axios request

text \<open>The body of a response (\<open>response.data\<close>), every field possibly absent.\<close>

record response =
  r_currentPath :: "string option"
  r_files :: "file_entry list option"
  r_folders :: "folder_entry list option"
  r_path :: "string option"
  r_exists :: bool

record backend =
  acquireTokenSilent :: "call list \<Rightarrow> js_error + string"
  axios :: "call list \<Rightarrow> request \<Rightarrow> js_error + response"

datatype console_line = Warn string | Err string

record world =
  files :: "file_entry list"
  folders :: "folder_entry list"
  currentPath :: string
  loading :: bool
  error :: "string option"
  selectedFile :: "upload_file option"
  uploadProgress :: "progress option"
  showCreateFolder :: bool
  newFolderName :: string
  treeCache :: "string \<rightharpoonup> folder_entry list"
  expandedPaths :: "string set"
  userRoles :: roles
  calls :: "call list"
  console :: "console_line list"

text \<open>The component as first rendered (the initial values of its \<open>useState\<close> hooks).\<close>

definition initial :: world where
  "initial =
     \<lparr>files = [], folders = [], currentPath = ''/'', loading = False, error = None,
      selectedFile = None, uploadProgress = None, showCreateFolder = False,
      newFolderName = [], treeCache = Map.empty, expandedPaths = {''/''},
      userRoles = \<lparr>isReader = False, isUploader = False, isAdmin = False\<rparr>,
      calls = [], console = []\<rparr>"

section \<open>External calls\<close>

definition warn :: "string \<Rightarrow> world \<Rightarrow> world" where
  "warn m w = w\<lparr>console := console w @ [Warn m]\<rparr>"

definition log_error :: "string \<Rightarrow> world \<Rightarrow> world" where
  "log_error m w = w\<lparr>console := console w @ [Err m]\<rparr>"

text \<open>\<open>getAccessToken\<close>: a failure of the provider is logged and thrown again.\<close>

definition getAccessToken :: "backend \<Rightarrow> world \<Rightarrow> (js_error + string) \<times> world" where
  "getAccessToken be w =
     (let w1 = w\<lparr>calls := calls w @ [AcquireTokenSilent]\<rparr> in
      case acquireTokenSilent be (calls w) of
        Inl e \<Rightarrow> (Inl e, log_error ''Error acquiring token:'' w1)
      | Inr t \<Rightarrow> (Inr t, w1))"

text \<open>One awaited HTTP request: the reply is the backend's, the request is logged.\<close>

definition send :: "backend \<Rightarrow> request \<Rightarrow> world \<Rightarrow> (js_error + response) \<times> world" where
  "send be rq w = (axios be (calls w) rq, w\<lparr>calls := calls w @ [Axios rq]\<rparr>)"

section \<open>Listing: \<open>fetchFiles\<close>\<close>

text \<open>\<open>x || '/'\<close> and \<open>x || []\<close> on a possibly absent field.\<close>

definition orRoot :: "string option \<Rightarrow> string" where
  "orRoot x = (case x of None \<Rightarrow> ''/'' | Some s \<Rightarrow> if s = [] then ''/'' else s)"

definition orEmpty :: "'a list option \<Rightarrow> 'a list" where
  "orEmpty x = (case x of None \<Rightarrow> [] | Some xs \<Rightarrow> xs)"

text \<open>The query of a listing URL: none for the empty path and for \<open>/\<close>.\<close>

definition listQuery :: "string \<Rightarrow> string option" where
  "listQuery folderPath =
     (if folderPath \<noteq> [] \<and> folderPath \<noteq> ''/'' then Some folderPath else None)"

definition cacheListing :: "response \<Rightarrow> world \<Rightarrow> world" where
  "cacheListing d w =
     w\<lparr>treeCache := (treeCache w)(orRoot (r_currentPath d) \<mapsto> orEmpty (r_folders d))\<rparr>"

text \<open>
  \<open>fetchFiles\<close> up to its first \<open>await\<close>: the part that runs when a caller invokes it
  without awaiting it.
\<close>

definition fetchFiles_begin ::
  "backend \<Rightarrow> string \<Rightarrow> string \<Rightarrow> world \<Rightarrow> (js_error + response) \<times> world" where
  "fetchFiles_begin be token folderPath w =
     send be (GET_files token (listQuery folderPath)) (w\<lparr>loading := True, error := None\<rparr>)"

text \<open>The secondary refresh of the root entry of the tree; its failure is only logged.\<close>

definition refreshRoot :: "backend \<Rightarrow> string \<Rightarrow> world \<Rightarrow> world" where
  "refreshRoot be token w =
     (case send be (GET_files token None) w of
        (Inl e, w1) \<Rightarrow> warn ''Failed to refresh root tree:'' w1
      | (Inr rd, w1) \<Rightarrow> cacheListing rd w1)"

text \<open>\<open>fetchFiles\<close> from the settling of its listing request on.\<close>

definition fetchFiles_settle ::
  "backend \<Rightarrow> string \<Rightarrow> (js_error + response) \<Rightarrow> world \<Rightarrow> world" where
  "fetchFiles_settle be token reply w =
     (case reply of
        Inl e \<Rightarrow>
          (log_error ''Error fetching files:'' w)
            \<lparr>error := Some ''Failed to fetch files.'', loading := False\<rparr>
      | Inr d \<Rightarrow>
          (let cp = orRoot (r_currentPath d);
               w1 = cacheListing d
                      (w\<lparr>currentPath := cp, files := orEmpty (r_files d),
                         folders := orEmpty (r_folders d)\<rparr>);
               w2 = (if cp \<noteq> ''/'' then refreshRoot be token w1 else w1)
           in w2\<lparr>expandedPaths := insert cp (expandedPaths w2), loading := False\<rparr>))"

definition fetchFiles :: "backend \<Rightarrow> string \<Rightarrow> string \<Rightarrow> world \<Rightarrow> world" where
  "fetchFiles be token folderPath w =
     (case fetchFiles_begin be token folderPath w of
        (reply, w1) \<Rightarrow> fetchFiles_settle be token reply w1)"

section \<open>The folder tree: \<open>toggleExpand\<close> and \<open>TreeNode\<close>\<close>

text \<open>
  The tree cache is a plain object keyed by path: the map \<open>treeCache\<close> holds its own
  keys, and a cached value \<open>{folders: [...]}\<close> is an object, hence truthy.  Reading
  \<open>treeCache[path]\<close> also finds the properties that every plain object inherits; all
  of them are truthy (functions, and the prototype object), and none has a property
  \<open>folders\<close>.
\<close>

definition inheritedProperty :: "string \<Rightarrow> bool" where
  "inheritedProperty path =
     (path \<in> set [''constructor'', ''__proto__'', ''hasOwnProperty'', ''isPrototypeOf'',
                   ''propertyIsEnumerable'', ''toLocaleString'', ''toString'', ''valueOf'',
                   ''__defineGetter__'', ''__defineSetter__'', ''__lookupGetter__'',
                   ''__lookupSetter__''])"

text \<open>\<open>!treeCache[path]\<close>.\<close>

definition notInTreeCache :: "(string \<rightharpoonup> folder_entry list) \<Rightarrow> string \<Rightarrow> bool" where
  "notInTreeCache cache path = (cache path = None \<and> \<not> inheritedProperty path)"

definition loadTreeNode :: "backend \<Rightarrow> string \<Rightarrow> world \<Rightarrow> world" where
  "loadTreeNode be path w =
     (case getAccessToken be w of
        (Inl e, w1) \<Rightarrow> warn ''Failed to load tree node:'' w1
      | (Inr token, w1) \<Rightarrow>
          (let qPath = (if path = ''/'' then [] else path) in
           case send be (GET_files token (listQuery qPath)) w1 of
             (Inl e, w2) \<Rightarrow> warn ''Failed to load tree node:'' w2
           | (Inr d, w2) \<Rightarrow> cacheListing d w2))"

definition toggleExpand :: "backend \<Rightarrow> string \<Rightarrow> world \<Rightarrow> world" where
  "toggleExpand be path w =
     (if path \<in> expandedPaths w then w\<lparr>expandedPaths := expandedPaths w - {path}\<rparr>
      else
        (let next = insert path (expandedPaths w);
             w1 = (if notInTreeCache (treeCache w) path then loadTreeNode be path w else w)
         in w1\<lparr>expandedPaths := next\<rparr>))"

text \<open>
  What \<open>TreeNode\<close> renders: the node with its expansion mark and, while it is expanded
  and has children, one node per child folder.  The children of a nested node are
  \<open>(treeCache[f.path] && treeCache[f.path].folders) || []\<close>.  The recursion follows
  the cache, which may be cyclic, so the rendering carries fuel.
\<close>

datatype node_view = NodeView string string bool "node_view list"

definition childrenFolders :: "(string \<rightharpoonup> folder_entry list) \<Rightarrow> string \<Rightarrow> folder_entry list" where
  "childrenFolders cache path = (case cache path of None \<Rightarrow> [] | Some fs \<Rightarrow> fs)"

fun TreeNode ::
  "nat \<Rightarrow> (string \<rightharpoonup> folder_entry list) \<Rightarrow> string set \<Rightarrow>
     string \<Rightarrow> string \<Rightarrow> bool \<Rightarrow> folder_entry list \<Rightarrow> node_view option" where
  "TreeNode 0 cache expandedSet path name expanded children = None"
| "TreeNode (Suc n) cache expandedSet path name expanded children =
     (if expanded \<and> children \<noteq> [] then
        map_option (NodeView path name expanded)
          (those (map (\<lambda>f. TreeNode n cache expandedSet (fd_path f) (fd_name f)
                              (fd_path f \<in> expandedSet) (childrenFolders cache (fd_path f)))
                   children))
      else Some (NodeView path name expanded []))"

section \<open>Upload: \<open>handleChunkedUpload\<close> and \<open>handleUpload\<close>\<close>

definition CHUNK_SIZE :: nat where
  "CHUNK_SIZE = 50 * 1024 * 1024"

definition USE_CHUNKED_THRESHOLD :: nat where
  "USE_CHUNKED_THRESHOLD = 100 * 1024 * 1024"

text \<open>
  \<open>Math.ceil(file.size / CHUNK_SIZE)\<close>.  A file size is an integer below \<open>2^53\<close>, for
  which the floating-point quotient cannot round to a whole number that the exact
  quotient is not, so the real quotient stands for it.
\<close>

definition totalChunksOf :: "upload_file \<Rightarrow> nat" where
  "totalChunksOf file = nat \<lceil>real (uf_size file) / real CHUNK_SIZE\<rceil>"

definition folderParam :: "string \<Rightarrow> string" where
  "folderParam cp = (if cp = ''/'' then [] else cp)"

text \<open>
  The \<open>for\<close> loop over the chunks, from \<open>chunkIndex\<close> on.  Each request is awaited: a
  failed request throws out of the loop, a successful one updates the progress state.
\<close>

function uploadChunks ::
  "backend \<Rightarrow> upload_file \<Rightarrow> string \<Rightarrow> string \<Rightarrow> nat \<Rightarrow> nat \<Rightarrow> world
     \<Rightarrow> (js_error + unit) \<times> world" where
  "uploadChunks be file token cp totalChunks chunkIndex w =
     (if chunkIndex < totalChunks then
        (let start = chunkIndex * CHUNK_SIZE;
             end = min (start + CHUNK_SIZE) (uf_size file)
         in case send be (POST_chunked token (uf_name file) chunkIndex totalChunks
                            (folderParam cp) start end) w of
              (Inl e, w1) \<Rightarrow> (Inl e, w1)
            | (Inr d, w1) \<Rightarrow>
                uploadChunks be file token cp totalChunks (Suc chunkIndex)
                  (w1\<lparr>uploadProgress :=
                        Some \<lparr>pr_current = chunkIndex + 1, pr_total = totalChunks,
                              pr_filename = uf_name file, pr_committing = False\<rparr>\<rparr>))
      else (Inr (), w))"
  by pat_completeness auto
termination
  by (relation "measure (\<lambda>(be, file, token, cp, totalChunks, chunkIndex, w).
                  totalChunks - chunkIndex)") auto

declare uploadChunks.simps [simp del]

definition contentTypeOf :: "upload_file \<Rightarrow> string" where
  "contentTypeOf file = (if uf_type file = [] then ''application/octet-stream'' else uf_type file)"

text \<open>\<open>handleChunkedUpload(file, token)\<close>; \<open>cp\<close> is the \<open>currentPath\<close> of its closure.\<close>

definition handleChunkedUpload ::
  "backend \<Rightarrow> upload_file \<Rightarrow> string \<Rightarrow> string \<Rightarrow> world \<Rightarrow> (js_error + unit) \<times> world" where
  "handleChunkedUpload be file token cp w =
     (let totalChunks = totalChunksOf file;
          w0 = w\<lparr>uploadProgress :=
                    Some \<lparr>pr_current = 0, pr_total = totalChunks,
                          pr_filename = uf_name file, pr_committing = False\<rparr>\<rparr>
      in case uploadChunks be file token cp totalChunks 0 w0 of
           (Inl e, w1) \<Rightarrow> (Inl e, w1)
         | (Inr u, w1) \<Rightarrow>
             (let w2 = w1\<lparr>uploadProgress :=
                            Some \<lparr>pr_current = totalChunks, pr_total = totalChunks,
                                  pr_filename = uf_name file, pr_committing = True\<rparr>\<rparr>
              in case send be (POST_commit token (uf_name file) totalChunks
                                 (contentTypeOf file) (folderParam cp)) w2 of
                   (Inl e, w3) \<Rightarrow> (Inl e, w3)
                 | (Inr d, w3) \<Rightarrow> (Inr (), w3\<lparr>uploadProgress := None\<rparr>)))"

text \<open>
  The existence polling started by a single-request upload: the state of the interval
  timer and of its callback's closure.  \<open>po_inflight\<close> holds the existence checks that
  have been issued and have not settled yet, each with the attempt that issued it and
  the reply it will settle with.  \<open>po_elapsedMs\<close> is the time of the last firing of the
  timer, in milliseconds since \<open>setInterval\<close>: the timer fires every \<open>pollIntervalMs\<close>.
\<close>

record polling =
  po_token :: string
  po_startedPath :: string
  po_folderPath :: string
  po_attempts :: nat
  po_active :: bool
  po_inflight :: "(nat \<times> (js_error + response)) list"
  po_elapsedMs :: nat

definition pollIntervalMs :: nat where
  "pollIntervalMs = 3000"

definition maxAttempts :: nat where
  "maxAttempts = 100"

definition upload_failed :: "world \<Rightarrow> world" where
  "upload_failed w =
     (log_error ''Upload error:'' w)\<lparr>error := Some ''Failed to upload file.'', loading := False\<rparr>"

text \<open>
  \<open>handleUpload\<close>.  The result is the world when the handler's promise settles and the
  polling it has started, if any.  After a chunked upload the listing refresh is called
  without \<open>await\<close>: it runs to its request, the handler's \<open>finally\<close> block runs, and the
  refresh continues when its request settles.
\<close>

definition handleUpload :: "backend \<Rightarrow> world \<Rightarrow> world \<times> polling option" where
  "handleUpload be w =
     (case selectedFile w of
        None \<Rightarrow> (w\<lparr>error := Some ''Please select a file.''\<rparr>, None)
      | Some file \<Rightarrow>
          (case getAccessToken be (w\<lparr>loading := True\<rparr>) of
             (Inl e, w1) \<Rightarrow> (upload_failed w1, None)
           | (Inr token, w1) \<Rightarrow>
               if uf_size file > USE_CHUNKED_THRESHOLD then
                 (case handleChunkedUpload be file token (currentPath w) w1 of
                    (Inl e, w2) \<Rightarrow> (upload_failed w2, None)
                  | (Inr u, w2) \<Rightarrow>
                      (case fetchFiles_begin be token (folderParam (currentPath w))
                              (w2\<lparr>selectedFile := None, error := None\<rparr>) of
                         (reply, w3) \<Rightarrow>
                           (fetchFiles_settle be token reply (w3\<lparr>loading := False\<rparr>), None)))
               else
                 (let targetFolder = folderParam (currentPath w) in
                  case send be (POST_files token
                                  (if targetFolder \<noteq> [] then Some targetFolder else None) file)
                         w1 of
                    (Inl e, w2) \<Rightarrow> (upload_failed w2, None)
                  | (Inr d, w2) \<Rightarrow>
                      (let startedPath =
                             (case r_path d of
                                Some p \<Rightarrow>
                                  if p \<noteq> [] then p
                                  else if targetFolder \<noteq> [] then targetFolder @ ''/'' @ uf_name file
                                  else uf_name file
                              | None \<Rightarrow>
                                  if targetFolder \<noteq> [] then targetFolder @ ''/'' @ uf_name file
                                  else uf_name file)
                       in (w2\<lparr>selectedFile := None, error := None, loading := False\<rparr>,
                           Some \<lparr>po_token = token, po_startedPath = startedPath,
                                 po_folderPath = folderParam (currentPath w),
                                 po_attempts = 0, po_active = True, po_inflight = [],
                                 po_elapsedMs = 0\<rparr>)))))"

text \<open>
  The polling as an event system.  \<open>Tick\<close>: the timer fires, which it does only until
  \<open>clearInterval\<close>; the callback counts the attempt and issues its existence check.
  \<open>Settle k\<close>: the check issued by attempt \<open>k\<close> settles and the callback continues,
  reading the shared counter \<open>attempts\<close> as it is then.  The listing refresh it calls
  without \<open>await\<close> is taken in one step.
\<close>

datatype poll_event = Tick | Settle nat

definition poll_settle ::
  "backend \<Rightarrow> (js_error + response) \<Rightarrow> world \<times> polling \<Rightarrow> world \<times> polling" where
  "poll_settle be reply wp =
     (case wp of (w, po) \<Rightarrow>
        (case reply of
           Inr d \<Rightarrow>
             if r_exists d then
               (fetchFiles be (po_token po) (po_folderPath po) w, po\<lparr>po_active := False\<rparr>)
             else if po_attempts po \<ge> maxAttempts then
               (warn ''Polling timed out for'' w, po\<lparr>po_active := False\<rparr>)
             else (w, po)
         | Inl e \<Rightarrow>
             (warn ''Exists check failed:'' w,
              if po_attempts po \<ge> maxAttempts then po\<lparr>po_active := False\<rparr> else po)))"

definition poll_step :: "backend \<Rightarrow> poll_event \<Rightarrow> world \<times> polling \<Rightarrow> world \<times> polling" where
  "poll_step be ev wp =
     (case wp of (w, po) \<Rightarrow>
        (case ev of
           Tick \<Rightarrow>
             if po_active po then
               (let attempts = po_attempts po + 1 in
                case send be (GET_exists (po_token po) (po_startedPath po)) w of
                  (reply, w1) \<Rightarrow>
                    (w1, po\<lparr>po_attempts := attempts,
                             po_inflight := po_inflight po @ [(attempts, reply)],
                             po_elapsedMs := po_elapsedMs po + pollIntervalMs\<rparr>))
             else (w, po)
         | Settle k \<Rightarrow>
             (case map_of (po_inflight po) k of
                None \<Rightarrow> (w, po)
              | Some reply \<Rightarrow>
                  poll_settle be reply
                    (w, po\<lparr>po_inflight := filter (\<lambda>kr. fst kr \<noteq> k) (po_inflight po)\<rparr>))))"

definition poll_run :: "backend \<Rightarrow> poll_event list \<Rightarrow> world \<times> polling \<Rightarrow> world \<times> polling" where
  "poll_run be evs wp = fold (poll_step be) evs wp"

text \<open>The schedule on which every existence check settles before the next tick.\<close>

definition timely :: "nat \<Rightarrow> poll_event list" where
  "timely n = concat (map (\<lambda>k. [Tick, Settle (Suc k)]) [0..<n])"

section \<open>Folder creation: \<open>handleCreateFolder\<close>\<close>

text \<open>
  \<open>!newFolderName.trim()\<close>: the name is empty once its white space is trimmed.  Text
  is a byte string in UTF-8, and \<open>trim\<close> strips the white space and line terminators
  of the language: the ASCII ones, U+00A0, U+1680, U+2000 to U+200A, U+2028, U+2029,
  U+202F, U+205F, U+3000 and U+FEFF, here in their encodings of two and three octets.
\<close>

definition whitespace3 :: "(char \<times> char \<times> char) list" where
  "whitespace3 =
     (CHR 0xE1, CHR 0x9A, CHR 0x80)
     # map (\<lambda>n. (CHR 0xE2, CHR 0x80, char_of (128 + n))) [0 ..< 11 :: nat]
     @ [(CHR 0xE2, CHR 0x80, CHR 0xA8), (CHR 0xE2, CHR 0x80, CHR 0xA9),
        (CHR 0xE2, CHR 0x80, CHR 0xAF), (CHR 0xE2, CHR 0x81, CHR 0x9F),
        (CHR 0xE3, CHR 0x80, CHR 0x80), (CHR 0xEF, CHR 0xBB, CHR 0xBF)]"

fun isBlank :: "string \<Rightarrow> bool" where
  "isBlank [] = True"
| "isBlank (c # cs) =
     (if c \<in> set [CHR 0x20, CHR 0x09, CHR 0x0A, CHR 0x0B, CHR 0x0C, CHR 0x0D] then isBlank cs
      else if c = CHR 0xC2 then
        (case cs of d # r \<Rightarrow> d = CHR 0xA0 \<and> isBlank r | [] \<Rightarrow> False)
      else
        (case cs of
           d # e # r \<Rightarrow> (c, d, e) \<in> set whitespace3 \<and> isBlank r
         | _ \<Rightarrow> False))"

declare isBlank.simps [simp del]

definition create_failed :: "world \<Rightarrow> world" where
  "create_failed w =
     (log_error ''Create folder error:'' w)
       \<lparr>error := Some ''Failed to create folder.'', loading := False\<rparr>"

definition addFolder :: "folder_entry \<Rightarrow> folder_entry list \<Rightarrow> folder_entry list" where
  "addFolder newFolder prev =
     (if list_ex (\<lambda>f. fd_path f = fd_path newFolder) prev then prev else prev @ [newFolder])"

text \<open>
  \<open>handleCreateFolder\<close>.  Its last step is \<open>await fetchFiles(currentPath)\<close>: the first
  parameter of \<open>fetchFiles\<close> is the token and the second, here omitted, the folder path
  with default \<open>''\<close>.  A failure of that refresh is handled inside \<open>fetchFiles\<close>.
\<close>

definition handleCreateFolder :: "backend \<Rightarrow> world \<Rightarrow> world" where
  "handleCreateFolder be w =
     (if isBlank (newFolderName w) then w\<lparr>error := Some ''Folder name cannot be empty.''\<rparr>
      else
        (case getAccessToken be (w\<lparr>loading := True\<rparr>) of
           (Inl e, w1) \<Rightarrow> create_failed w1
         | (Inr token, w1) \<Rightarrow>
             (let folderPath = (if currentPath w = ''/'' then newFolderName w
                                else currentPath w @ ''/'' @ newFolderName w)
              in case send be (POST_create_folder token folderPath) w1 of
                   (Inl e, w2) \<Rightarrow> create_failed w2
                 | (Inr d, w2) \<Rightarrow>
                     (let newFolder = \<lparr>fd_name = newFolderName w, fd_path = folderPath,
                                       fd_type = Some ''folder'', fd_children = Some 0\<rparr>;
                          key = currentPath w;
                          w3 = w2\<lparr>folders := addFolder newFolder (folders w2),
                                  treeCache := (treeCache w2)
                                     (key \<mapsto> addFolder newFolder (childrenFolders (treeCache w2) key)),
                                  expandedPaths := insert (currentPath w) (expandedPaths w2),
                                  newFolderName := [], showCreateFolder := False,
                                  error := None\<rparr>
                      in (fetchFiles be (currentPath w) [] w3)\<lparr>loading := False\<rparr>))))"

section \<open>Token decoding and roles\<close>

text \<open>
  The claims of a token are a JSON value.  A number is kept as the exact value of its
  decimal text.  Text is a byte string in UTF-8; the binary string that \<open>atob\<close> returns
  has one character per byte.
\<close>

datatype json =
    JNull | JBool bool | JNumber rat | JString string
  | JArray "json list" | JObject "(string \<times> json) list"

text \<open>The browser functions that \<open>decodeToken\<close> calls.\<close>

record platform =
  atob :: "string \<Rightarrow> js_error + string"
  decodeURIComponent :: "string \<Rightarrow> js_error + string"
  JSON_parse :: "string \<Rightarrow> js_error + json"

text \<open>\<open>s.split(sep)\<close> for a separator of one character.\<close>

fun split :: "char \<Rightarrow> string \<Rightarrow> string list" where
  "split sep [] = [[]]"
| "split sep (c # cs) =
     (if c = sep then [] # split sep cs
      else (case split sep cs of [] \<Rightarrow> [[c]] | x # xs \<Rightarrow> (c # x) # xs))"

text \<open>\<open>s.replace(/a/g, b)\<close> for single characters.\<close>

definition replaceAll :: "char \<Rightarrow> char \<Rightarrow> string \<Rightarrow> string" where
  "replaceAll a b s = map (\<lambda>c. if c = a then b else c) s"

definition hexDigit :: "nat \<Rightarrow> char" where
  "hexDigit d = ''0123456789abcdef'' ! d"

text \<open>\<open>n.toString(16)\<close>.\<close>

function toString16 :: "nat \<Rightarrow> string" where
  "toString16 n =
     (if n < 16 then [hexDigit n] else toString16 (n div 16) @ [hexDigit (n mod 16)])"
  by pat_completeness auto
termination
  by (relation "measure id") auto

declare toString16.simps [simp del]

text \<open>\<open>'%' + ('00' + c.charCodeAt(0).toString(16)).slice(-2)\<close>.\<close>

definition percentEscape :: "char \<Rightarrow> string" where
  "percentEscape c =
     (let h = ''00'' @ toString16 (of_char c) in ''%'' @ drop (length h - 2) h)"

text \<open>
  \<open>decodeToken\<close>.  \<open>token.split('.')[1]\<close> is \<open>undefined\<close> for a token without a dot, and
  calling \<open>replace\<close> on it throws a \<open>TypeError\<close>.
\<close>

definition decodeToken :: "platform \<Rightarrow> string \<Rightarrow> js_error + json" where
  "decodeToken pf token =
     (case split CHR ''.'' token of
        s0 # base64Url # rest \<Rightarrow>
          (let base64 = replaceAll CHR ''_'' CHR ''/'' (replaceAll CHR ''-'' CHR ''+'' base64Url) in
           case atob pf base64 of
             Inl e \<Rightarrow> Inl e
           | Inr binary \<Rightarrow>
               (case decodeURIComponent pf (concat (map percentEscape binary)) of
                  Inl e \<Rightarrow> Inl e
                | Inr jsonPayload \<Rightarrow> JSON_parse pf jsonPayload))
      | _ \<Rightarrow> Inl TypeError)"

text \<open>
  Truthiness of a JSON value.  A number is falsy when it is zero as a double: when its
  decimal text denotes zero or a value that rounds to zero (at most \<open>2^-1075\<close> in
  magnitude).
\<close>

fun truthy :: "json \<Rightarrow> bool" where
  "truthy JNull = False"
| "truthy (JBool b) = b"
| "truthy (JNumber q) = (\<bar>q\<bar> * 2 ^ 1075 > 1)"
| "truthy (JString s) = (s \<noteq> [])"
| "truthy (JArray vs) = True"
| "truthy (JObject kvs) = True"

text \<open>
  \<open>decoded['groups'] || []\<close>.  Reading a property of \<open>null\<close> throws; a value that is not
  an object has no such property; of duplicate keys of an object the last one counts.
\<close>

definition groupsOf :: "json \<Rightarrow> js_error + json" where
  "groupsOf decoded =
     (case decoded of
        JNull \<Rightarrow> Inl TypeError
      | JObject kvs \<Rightarrow>
          (case map_of (rev kvs) ''groups'' of
             None \<Rightarrow> Inr (JArray [])
           | Some v \<Rightarrow> Inr (if truthy v then v else JArray []))
      | _ \<Rightarrow> Inr (JArray []))"

text \<open>\<open>g.includes(s)\<close> on strings: \<open>s\<close> occurs in \<open>g\<close>.\<close>

fun includesString :: "string \<Rightarrow> string \<Rightarrow> bool" where
  "includesString [] s = (s = [])"
| "includesString (c # g) s = (take (length s) (c # g) = s \<or> includesString g s)"

text \<open>
  \<open>groups.includes(id)\<close>, where \<open>id\<close> is a configured identifier or \<open>undefined\<close>.  On an
  array it is membership (no element of a parsed array is \<open>undefined\<close>); on a string it
  is the search for the text of \<open>id\<close>; numbers, \<open>true\<close> and objects have no callable
  \<open>includes\<close>.
\<close>

definition js_includes :: "json \<Rightarrow> string option \<Rightarrow> js_error + bool" where
  "js_includes groups ident =
     (case groups of
        JArray vs \<Rightarrow> Inr (case ident of None \<Rightarrow> False | Some s \<Rightarrow> JString s \<in> set vs)
      | JString g \<Rightarrow> Inr (includesString g (case ident of None \<Rightarrow> ''undefined'' | Some s \<Rightarrow> s))
      | _ \<Rightarrow> Inl TypeError)"


text \<open>The three group identifiers of the configuration, each possibly not set.\<close>

record config =
  READER_GROUP_ID :: "string option"
  UPLOADER_GROUP_ID :: "string option"
  ADMIN_GROUP_ID :: "string option"

definition deriveRoles :: "config \<Rightarrow> json \<Rightarrow> js_error + roles" where
  "deriveRoles cfg groups =
     (case js_includes groups (READER_GROUP_ID cfg) of
        Inl e \<Rightarrow> Inl e
      | Inr r \<Rightarrow>
          (case js_includes groups (UPLOADER_GROUP_ID cfg) of
             Inl e \<Rightarrow> Inl e
           | Inr u \<Rightarrow>
               (case js_includes groups (ADMIN_GROUP_ID cfg) of
                  Inl e \<Rightarrow> Inl e
                | Inr a \<Rightarrow> Inr \<lparr>isReader = r, isUploader = u, isAdmin = a\<rparr>)))"

definition init_failed :: "world \<Rightarrow> world" where
  "init_failed w =
     (log_error ''Initialization error:'' w)
       \<lparr>error := Some ''Failed to initialize. Please log in again.''\<rparr>"

text \<open>
  \<open>initializeComponent\<close> of the effect that runs when the component is mounted.  Every
  exception of its \<open>try\<close> block ends in the same \<open>catch\<close>.  The listing is called
  without \<open>await\<close> as the last statement.
\<close>

definition initializeComponent :: "platform \<Rightarrow> config \<Rightarrow> backend \<Rightarrow> world \<Rightarrow> world" where
  "initializeComponent pf cfg be w =
     (case getAccessToken be w of
        (Inl e, w1) \<Rightarrow> init_failed w1
      | (Inr token, w1) \<Rightarrow>
          (case decodeToken pf token of
             Inl e \<Rightarrow> init_failed w1
           | Inr decoded \<Rightarrow>
               (case groupsOf decoded of
                  Inl e \<Rightarrow> init_failed w1
                | Inr groups \<Rightarrow>
                    (case deriveRoles cfg groups of
                       Inl e \<Rightarrow> init_failed w1
                     | Inr rs \<Rightarrow>
                         if isReader rs \<or> isUploader rs \<or> isAdmin rs
                         then fetchFiles be token [] (w1\<lparr>userRoles := rs\<rparr>)
                         else w1\<lparr>userRoles := rs,
                                 error := Some ''You do not have permission to access files.''\<rparr>))))"

text \<open>
  The second effect that runs when the richest variant is mounted (\<open>Always load root
  children once initialized so sidebar shows content\<close>): it acquires a token of its
  own and lists the root into the tree cache.  It reads no role.
\<close>

definition preloadRootTree :: "backend \<Rightarrow> world \<Rightarrow> world" where
  "preloadRootTree be w =
     (case getAccessToken be w of
        (Inl e, w1) \<Rightarrow> warn ''Failed to preload root tree:'' w1
      | (Inr token, w1) \<Rightarrow>
          (case send be (GET_files token None) w1 of
             (Inl e, w2) \<Rightarrow> warn ''Failed to preload root tree:'' w2
           | (Inr d, w2) \<Rightarrow> cacheListing d w2))"

text \<open>
  The basic variant of the component (\<open>src/components/FileManager.js\<close>) decodes the
  token and derives the roles with the same code; its \<open>fetchFiles\<close> lists the root and
  keeps the files only.
\<close>

definition fetchFiles_basic :: "backend \<Rightarrow> string \<Rightarrow> world \<Rightarrow> world" where
  "fetchFiles_basic be token w =
     (case send be (GET_files token None) (w\<lparr>loading := True, error := None\<rparr>) of
        (Inl e, w1) \<Rightarrow>
          (log_error ''Error fetching files:'' w1)
            \<lparr>error := Some ''Failed to fetch files.'', loading := False\<rparr>
      | (Inr d, w1) \<Rightarrow> w1\<lparr>files := orEmpty (r_files d), loading := False\<rparr>)"

definition initializeComponent_basic :: "platform \<Rightarrow> config \<Rightarrow> backend \<Rightarrow> world \<Rightarrow> world" where
  "initializeComponent_basic pf cfg be w =
     (case getAccessToken be w of
        (Inl e, w1) \<Rightarrow> init_failed w1
      | (Inr token, w1) \<Rightarrow>
          (case decodeToken pf token of
             Inl e \<Rightarrow> init_failed w1
           | Inr decoded \<Rightarrow>
               (case groupsOf decoded of
                  Inl e \<Rightarrow> init_failed w1
                | Inr groups \<Rightarrow>
                    (case deriveRoles cfg groups of
                       Inl e \<Rightarrow> init_failed w1
                     | Inr rs \<Rightarrow>
                         if isReader rs \<or> isUploader rs \<or> isAdmin rs
                         then fetchFiles_basic be token (w1\<lparr>userRoles := rs\<rparr>)
                         else w1\<lparr>userRoles := rs,
                                 error := Some ''You do not have permission to access files.''\<rparr>))))"

section \<open>The browser's functions\<close>

text \<open>
  The functions of the browser that \<open>decodeToken\<close> calls, after their standards:
  forgiving base-64 decoding, the decoding of percent escapes as UTF-8, and the JSON
  grammar.  They give the examples a platform to run on; the properties of the
  component are proved for every platform.
\<close>

subsection \<open>\<open>atob\<close>: forgiving base-64 decoding\<close>

fun indexOf :: "'a \<Rightarrow> 'a list \<Rightarrow> nat option" where
  "indexOf x [] = None"
| "indexOf x (y # ys) = (if x = y then Some 0 else map_option Suc (indexOf x ys))"

definition base64Value :: "char \<Rightarrow> nat option" where
  "base64Value c =
     indexOf c ''ABCDEFGHIJKLMNOPQRSTUVWXYZabcdefghijklmnopqrstuvwxyz0123456789+/''"

definition isAsciiWhitespace :: "char \<Rightarrow> bool" where
  "isAsciiWhitespace c = (c \<in> set [CHR 0x09, CHR 0x0A, CHR 0x0C, CHR 0x0D, CHR 0x20])"

definition stripPadding :: "string \<Rightarrow> string" where
  "stripPadding d =
     (if length d mod 4 = 0 then
        (if 2 \<le> length d \<and> drop (length d - 2) d = ''=='' then take (length d - 2) d
         else if 1 \<le> length d \<and> drop (length d - 1) d = ''='' then take (length d - 1) d
         else d)
      else d)"

fun sextetsToBytes :: "nat list \<Rightarrow> nat list" where
  "sextetsToBytes (a # b # c # d # vs) =
     (a * 4 + b div 16) # ((b mod 16) * 16 + c div 4) # ((c mod 4) * 64 + d) # sextetsToBytes vs"
| "sextetsToBytes [a, b, c] = [a * 4 + b div 16, (b mod 16) * 16 + c div 4]"
| "sextetsToBytes [a, b] = [a * 4 + b div 16]"
| "sextetsToBytes vs = []"

definition browser_atob :: "string \<Rightarrow> js_error + string" where
  "browser_atob data =
     (let d = stripPadding (filter (\<lambda>c. \<not> isAsciiWhitespace c) data) in
      if length d mod 4 = 1 then Inl InvalidCharacterError
      else (case those (map base64Value d) of
              None \<Rightarrow> Inl InvalidCharacterError
            | Some vs \<Rightarrow> Inr (map char_of (sextetsToBytes vs))))"

subsection \<open>\<open>decodeURIComponent\<close>\<close>

definition hexValue :: "char \<Rightarrow> nat option" where
  "hexValue c =
     (case indexOf c ''0123456789abcdef'' of
        Some v \<Rightarrow> Some v
      | None \<Rightarrow> map_option (\<lambda>v. v + 10) (indexOf c ''ABCDEF''))"

text \<open>The text as literal characters (\<open>Inl\<close>) and escaped octets (\<open>Inr\<close>).\<close>

fun unescape :: "string \<Rightarrow> (char + nat) list option" where
  "unescape [] = Some []"
| "unescape (c # cs) =
     (if c = CHR ''%'' then
        (case cs of
           h # l # rest \<Rightarrow>
             (case (hexValue h, hexValue l) of
                (Some a, Some b) \<Rightarrow> map_option ((#) (Inr (a * 16 + b))) (unescape rest)
              | _ \<Rightarrow> None)
         | _ \<Rightarrow> None)
      else map_option ((#) (Inl c)) (unescape cs))"

text \<open>The octets of an escaped sequence when they are continuation octets.\<close>

definition continuations :: "(char + nat) list \<Rightarrow> nat list option" where
  "continuations xs =
     those (map (\<lambda>x. case x of Inr b \<Rightarrow> if 128 \<le> b \<and> b < 192 then Some b else None
                           | Inl c \<Rightarrow> None) xs)"

text \<open>
  Whether a leading octet and its continuation octets are the UTF-8 encoding of a code
  point: no overlong form, no surrogate, nothing above \<open>0x10FFFF\<close>.
\<close>

definition validSequence :: "nat \<Rightarrow> nat list \<Rightarrow> bool" where
  "validSequence b bs =
     (case bs of
        [c1] \<Rightarrow> 128 \<le> (b - 192) * 64 + (c1 - 128)
      | [c1, c2] \<Rightarrow>
          (let cp = ((b - 224) * 64 + (c1 - 128)) * 64 + (c2 - 128)
           in 2048 \<le> cp \<and> \<not> (55296 \<le> cp \<and> cp \<le> 57343))
      | [c1, c2, c3] \<Rightarrow>
          (let cp = (((b - 240) * 64 + (c1 - 128)) * 64 + (c2 - 128)) * 64 + (c3 - 128)
           in 65536 \<le> cp \<and> cp \<le> 1114111)
      | _ \<Rightarrow> False)"

function decodeOctets :: "(char + nat) list \<Rightarrow> string option" where
  "decodeOctets [] = Some []"
| "decodeOctets (Inl c # xs) = map_option ((#) c) (decodeOctets xs)"
| "decodeOctets (Inr b # xs) =
     (if b < 128 then map_option ((#) (char_of b)) (decodeOctets xs)
      else if b < 192 \<or> 248 \<le> b then None
      else
        (let n = (if b < 224 then 1 else if b < 240 then 2 else 3 :: nat) in
         if length xs < n then None
         else (case continuations (take n xs) of
                 None \<Rightarrow> None
               | Some bs \<Rightarrow>
                   if validSequence b bs
                   then map_option ((@) (map char_of (b # bs))) (decodeOctets (drop n xs))
                   else None)))"
  by pat_completeness auto
termination
  by (relation "measure length") auto

definition browser_decodeURIComponent :: "string \<Rightarrow> js_error + string" where
  "browser_decodeURIComponent s =
     (case unescape s of
        None \<Rightarrow> Inl URIError
      | Some xs \<Rightarrow> (case decodeOctets xs of None \<Rightarrow> Inl URIError | Some t \<Rightarrow> Inr t))"


subsection \<open>\<open>JSON.parse\<close>\<close>

datatype token =
    TLBrace | TRBrace | TLBracket | TRBracket | TColon | TComma
  | TString string | TNumber rat | TTrue | TFalse | TNull

definition hex4 :: "char \<Rightarrow> char \<Rightarrow> char \<Rightarrow> char \<Rightarrow> nat option" where
  "hex4 a b c d =
     (case (hexValue a, hexValue b, hexValue c, hexValue d) of
        (Some w, Some x, Some y, Some z) \<Rightarrow> Some (((w * 16 + x) * 16 + y) * 16 + z)
      | _ \<Rightarrow> None)"

definition simpleEscape :: "char \<Rightarrow> char option" where
  "simpleEscape e =
     map_of [(CHR 0x22, CHR 0x22), (CHR 0x5C, CHR 0x5C), (CHR ''/'', CHR ''/''),
             (CHR ''b'', CHR 0x08), (CHR ''f'', CHR 0x0C), (CHR ''n'', CHR 0x0A),
             (CHR ''r'', CHR 0x0D), (CHR ''t'', CHR 0x09)] e"

text \<open>
  A string after its opening quote: its literal characters (\<open>Inl\<close>) and the code units
  of its four-digit hexadecimal escapes (\<open>Inr\<close>), and the text after its closing quote.
\<close>

fun stringBody :: "string \<Rightarrow> ((char + nat) list \<times> string) option" where
  "stringBody [] = None"
| "stringBody (c # cs) =
     (if c = CHR 0x22 then Some ([], cs)
      else if c = CHR 0x5C then
        (case cs of
           [] \<Rightarrow> None
         | e # r \<Rightarrow>
             if e = CHR ''u'' then
               (case r of
                  h1 # h2 # h3 # h4 # r' \<Rightarrow>
                    (case hex4 h1 h2 h3 h4 of
                       None \<Rightarrow> None
                     | Some u \<Rightarrow> map_option (\<lambda>(xs, t). (Inr u # xs, t)) (stringBody r'))
                | _ \<Rightarrow> None)
             else
               (case simpleEscape e of
                  None \<Rightarrow> None
                | Some x \<Rightarrow> map_option (\<lambda>(xs, t). (Inl x # xs, t)) (stringBody r)))
      else if (of_char c :: nat) < 32 then None
      else map_option (\<lambda>(xs, t). (Inl c # xs, t)) (stringBody cs))"

definition utf8 :: "nat \<Rightarrow> string" where
  "utf8 cp =
     map char_of
       (if cp < 128 then [cp]
        else if cp < 2048 then [192 + cp div 64, 128 + cp mod 64]
        else if cp < 65536 then [224 + cp div 4096, 128 + (cp div 64) mod 64, 128 + cp mod 64]
        else [240 + cp div 262144, 128 + (cp div 4096) mod 64, 128 + (cp div 64) mod 64,
              128 + cp mod 64])"

fun encodeUnits :: "(char + nat) list \<Rightarrow> string" where
  "encodeUnits [] = []"
| "encodeUnits (Inl c # xs) = c # encodeUnits xs"
| "encodeUnits (Inr u # xs) =
     (case xs of
        Inr l # ys \<Rightarrow>
          if 55296 \<le> u \<and> u < 56320 \<and> 56320 \<le> l \<and> l < 57344
          then utf8 (65536 + (u - 55296) * 1024 + (l - 56320)) @ encodeUnits ys
          else utf8 u @ encodeUnits xs
      | _ \<Rightarrow> utf8 u @ encodeUnits xs)"

definition isDigit :: "char \<Rightarrow> bool" where
  "isDigit c = (48 \<le> (of_char c :: nat) \<and> (of_char c :: nat) \<le> 57)"

definition digitsValue :: "string \<Rightarrow> nat" where
  "digitsValue ds = foldl (\<lambda>n c. n * 10 + (of_char c - 48)) 0 ds"

text \<open>
  A number at the head of the text, \<open>-? (0 | [1-9][0-9]*) (. [0-9]+)? ([eE] [+-]? [0-9]+)?\<close>,
  with the number of characters it takes.
\<close>

definition number :: "string \<Rightarrow> (rat \<times> nat) option" where
  "number s =
     (let neg = (take 1 s = ''-'');
          s1 = (if neg then drop 1 s else s);
          ip = (if take 1 s1 = ''0'' then ''0'' else takeWhile isDigit s1);
          s2 = drop (length ip) s1;
          dot = (take 1 s2 = ''.'');
          fp = (if dot then takeWhile isDigit (drop 1 s2) else []);
          s3 = (if dot then drop (1 + length fp) s2 else s2);
          ex = (take 1 s3 = ''e'' \<or> take 1 s3 = ''E'');
          s4 = (if ex then drop 1 s3 else s3);
          sg = (ex \<and> (take 1 s4 = ''+'' \<or> take 1 s4 = ''-''));
          eneg = (ex \<and> take 1 s4 = ''-'');
          s5 = (if sg then drop 1 s4 else s4);
          ep = (if ex then takeWhile isDigit s5 else []);
          s6 = drop (length ep) s5;
          m = (of_nat (digitsValue (ip @ fp)) :: rat) / 10 ^ length fp;
          v = (if eneg then m / 10 ^ digitsValue ep else m * 10 ^ digitsValue ep)
      in if ip = [] \<or> (dot \<and> fp = []) \<or> (ex \<and> ep = []) then None
         else Some (if neg then - v else v, length s - length s6))"

definition isJsonWhitespace :: "char \<Rightarrow> bool" where
  "isJsonWhitespace c = (c \<in> set [CHR 0x09, CHR 0x0A, CHR 0x0D, CHR 0x20])"

definition punctuation :: "char \<Rightarrow> token option" where
  "punctuation c =
     map_of [(CHR ''{'', TLBrace), (CHR ''}'', TRBrace), (CHR ''['', TLBracket),
             (CHR '']'', TRBracket), (CHR '':'', TColon), (CHR '','', TComma)] c"

lemma stringBody_shorter: "stringBody cs = Some (xs, rest) \<Longrightarrow> length rest < length cs"
proof (induction cs arbitrary: xs rest rule: stringBody.induct)
  case 1
  then show ?case by simp
next
  case (2 c cs)
  then show ?case
    by (fastforce split: if_splits list.splits option.splits)
qed

function tokens :: "string \<Rightarrow> token list option" where
  "tokens [] = Some []"
| "tokens (c # cs) =
     (if isJsonWhitespace c then tokens cs
      else if punctuation c \<noteq> None then map_option ((#) (the (punctuation c))) (tokens cs)
      else if c = CHR 0x22 then
        (case stringBody cs of
           None \<Rightarrow> None
         | Some (xs, rest) \<Rightarrow> map_option ((#) (TString (encodeUnits xs))) (tokens rest))
      else if c = CHR ''-'' \<or> isDigit c then
        (case number (c # cs) of
           None \<Rightarrow> None
         | Some (q, k) \<Rightarrow> map_option ((#) (TNumber q)) (tokens (drop (k - 1) cs)))
      else if take 4 (c # cs) = ''true'' then map_option ((#) TTrue) (tokens (drop 3 cs))
      else if take 5 (c # cs) = ''false'' then map_option ((#) TFalse) (tokens (drop 4 cs))
      else if take 4 (c # cs) = ''null'' then map_option ((#) TNull) (tokens (drop 3 cs))
      else None)"
  by pat_completeness auto
termination
  by (relation "measure length") (auto dest: stringBody_shorter)

declare tokens.simps [simp del]

text \<open>
  The parser is a pushdown automaton on the tokens.  A frame is an array or object under
  construction, an object with the key whose value is being read, if any.
\<close>

datatype frame = InArray "json list" | InObject "(string \<times> json) list" "string option"

datatype mode = Value | FirstValue | FirstKey | Key | Colon | AfterValue | Done json

definition complete :: "json \<Rightarrow> frame list \<Rightarrow> (mode \<times> frame list) option" where
  "complete v st =
     (case st of
        [] \<Rightarrow> Some (Done v, [])
      | InArray vs # st' \<Rightarrow> Some (AfterValue, InArray (vs @ [v]) # st')
      | InObject kvs (Some k) # st' \<Rightarrow> Some (AfterValue, InObject (kvs @ [(k, v)]) None # st')
      | InObject kvs None # st' \<Rightarrow> None)"

definition readValue :: "token \<Rightarrow> frame list \<Rightarrow> (mode \<times> frame list) option" where
  "readValue t st =
     (case t of
        TString s \<Rightarrow> complete (JString s) st
      | TNumber q \<Rightarrow> complete (JNumber q) st
      | TTrue \<Rightarrow> complete (JBool True) st
      | TFalse \<Rightarrow> complete (JBool False) st
      | TNull \<Rightarrow> complete JNull st
      | TLBracket \<Rightarrow> Some (FirstValue, InArray [] # st)
      | TLBrace \<Rightarrow> Some (FirstKey, InObject [] None # st)
      | _ \<Rightarrow> None)"

definition readKey :: "token \<Rightarrow> frame list \<Rightarrow> (mode \<times> frame list) option" where
  "readKey t st =
     (case (t, st) of
        (TString k, InObject kvs None # st') \<Rightarrow> Some (Colon, InObject kvs (Some k) # st')
      | _ \<Rightarrow> None)"

definition closeArray :: "frame list \<Rightarrow> (mode \<times> frame list) option" where
  "closeArray st = (case st of InArray vs # st' \<Rightarrow> complete (JArray vs) st' | _ \<Rightarrow> None)"

definition closeObject :: "frame list \<Rightarrow> (mode \<times> frame list) option" where
  "closeObject st =
     (case st of InObject kvs None # st' \<Rightarrow> complete (JObject kvs) st' | _ \<Rightarrow> None)"

definition parseStep :: "token \<Rightarrow> mode \<times> frame list \<Rightarrow> (mode \<times> frame list) option" where
  "parseStep t ms =
     (case ms of (m, st) \<Rightarrow>
        (case m of
           Value \<Rightarrow> readValue t st
         | FirstValue \<Rightarrow> if t = TRBracket then closeArray st else readValue t st
         | FirstKey \<Rightarrow> if t = TRBrace then closeObject st else readKey t st
         | Key \<Rightarrow> readKey t st
         | Colon \<Rightarrow> if t = TColon then Some (Value, st) else None
         | AfterValue \<Rightarrow>
             (case st of
                InArray vs # st' \<Rightarrow>
                  if t = TComma then Some (Value, st)
                  else if t = TRBracket then closeArray st else None
              | InObject kvs k # st' \<Rightarrow>
                  if t = TComma then Some (Key, st)
                  else if t = TRBrace then closeObject st else None
              | [] \<Rightarrow> None)
         | Done v \<Rightarrow> None))"

fun parseTokens :: "token list \<Rightarrow> mode \<times> frame list \<Rightarrow> json option" where
  "parseTokens [] ms = (case ms of (Done v, st) \<Rightarrow> Some v | _ \<Rightarrow> None)"
| "parseTokens (t # ts) ms =
     (case parseStep t ms of None \<Rightarrow> None | Some ms' \<Rightarrow> parseTokens ts ms')"

definition browser_JSON_parse :: "string \<Rightarrow> js_error + json" where
  "browser_JSON_parse text =
     (case tokens text of
        None \<Rightarrow> Inl SyntaxError
      | Some ts \<Rightarrow>
          (case parseTokens ts (Value, []) of None \<Rightarrow> Inl SyntaxError | Some v \<Rightarrow> Inr v))"

definition browser :: platform where
  "browser = \<lparr>atob = browser_atob, decodeURIComponent = browser_decodeURIComponent,
              JSON_parse = browser_JSON_parse\<rparr>"

section \<open>Observing the upload requests\<close>

text \<open>
  The requests of an upload in a log of calls: the single-request upload, the chunk
  requests and the commit request, in the order of their issue.
\<close>

fun isUploadRequest :: "request \<Rightarrow> bool" where
  "isUploadRequest (POST_files b q f) = True"
| "isUploadRequest (POST_chunked b fn i n fo st en) = True"
| "isUploadRequest (POST_commit b fn n ct fo) = True"
| "isUploadRequest rq = False"

definition uploadCalls :: "call list \<Rightarrow> request list" where
  "uploadCalls cs =
     concat (map (\<lambda>c. case c of Axios rq \<Rightarrow> if isUploadRequest rq then [rq] else []
                        | AcquireTokenSilent \<Rightarrow> []) cs)"


section \<open>Example backends and worlds\<close>

definition no_data :: response where
  "no_data = \<lparr>r_currentPath = None, r_files = None, r_folders = None, r_path = None,
              r_exists = False\<rparr>"

definition sample_folder :: folder_entry where
  "sample_folder = \<lparr>fd_name = ''reports'', fd_path = ''docs/reports'', fd_type = None,
                    fd_children = Some 2\<rparr>"

definition sample_file :: file_entry where
  "sample_file = \<lparr>fe_name = ''a.txt'', fe_fullPath = Some ''docs/a.txt'', fe_size = 5\<rparr>"

text \<open>A provider that issues the token \<open>tok\<close> and a gateway that fails every request.\<close>

definition offline :: backend where
  "offline = \<lparr>acquireTokenSilent = (\<lambda>h. Inr ''tok''), axios = (\<lambda>h rq. Inl RequestFailed)\<rparr>"

text \<open>
  A gateway that accepts every request made with the token \<open>tok\<close> and rejects the others.
  A listing reports the requested folder as its \<open>currentPath\<close> and one child folder;
  an uploaded blob is never found to exist.
\<close>

definition gateway_reply :: "request \<Rightarrow> js_error + response" where
  "gateway_reply rq =
     (case rq of
        GET_files b q \<Rightarrow>
          if b = ''tok'' then
            Inr (no_data\<lparr>r_currentPath := q, r_files := Some [], r_folders := Some [sample_folder]\<rparr>)
          else Inl RequestFailed
      | POST_files b q f \<Rightarrow> if b = ''tok'' then Inr no_data else Inl RequestFailed
      | POST_chunked b fn i n fo st en \<Rightarrow> if b = ''tok'' then Inr no_data else Inl RequestFailed
      | POST_commit b fn n ct fo \<Rightarrow> if b = ''tok'' then Inr no_data else Inl RequestFailed
      | GET_exists b pa \<Rightarrow> if b = ''tok'' then Inr no_data else Inl RequestFailed
      | POST_create_folder b fp \<Rightarrow> if b = ''tok'' then Inr no_data else Inl RequestFailed)"

definition gateway :: backend where
  "gateway = \<lparr>acquireTokenSilent = (\<lambda>h. Inr ''tok''), axios = (\<lambda>h rq. gateway_reply rq)\<rparr>"


text \<open>A world that shows the folder \<open>docs\<close> and has it in the tree cache.\<close>

definition browsing :: world where
  "browsing = initial\<lparr>currentPath := ''docs'', files := [sample_file],
                       folders := [sample_folder],
                       treeCache := [''docs'' \<mapsto> [sample_folder]]\<rparr>"



definition big_file :: upload_file where
  "big_file = \<lparr>uf_name = ''big.bin'', uf_size = 125829120, uf_type = []\<rparr>"

definition small_file :: upload_file where
  "small_file = \<lparr>uf_name = ''a.txt'', uf_size = 5, uf_type = ''text/plain''\<rparr>"

definition naming :: world where
  "naming = browsing\<lparr>showCreateFolder := True, newFolderName := ''new''\<rparr>"

text \<open>
  The world and the polling that \<open>handleUpload\<close> leaves after the single-request upload
  of the small file, and a polling whose first existence check is about to fail.
\<close>

definition polling0 :: polling where
  "polling0 = \<lparr>po_token = ''tok'', po_startedPath = ''a.txt'', po_folderPath = [],
               po_attempts = 0, po_active = True, po_inflight = [], po_elapsedMs = 0\<rparr>"

definition uploaded :: world where
  "uploaded = initial\<lparr>calls := [AcquireTokenSilent, Axios (POST_files ''tok'' None small_file)]\<rparr>"

definition retrying :: polling where
  "retrying = polling0\<lparr>po_attempts := 1, po_inflight := [(1, Inl RequestFailed)]\<rparr>"

text \<open>
  The gateway behind a provider that issues a given token, a gateway that answers every
  request of that provider's user with one folder, and a configuration of the three
  group identifiers.
\<close>

definition issuing :: "string \<Rightarrow> backend" where
  "issuing t = \<lparr>acquireTokenSilent = (\<lambda>h. Inr t), axios = (\<lambda>h rq. gateway_reply rq)\<rparr>"

definition serving :: "string \<Rightarrow> backend" where
  "serving t = \<lparr>acquireTokenSilent = (\<lambda>h. Inr t),
                axios = (\<lambda>h rq. Inr (no_data\<lparr>r_folders := Some [sample_folder]\<rparr>))\<rparr>"

definition groupIds :: config where
  "groupIds = \<lparr>READER_GROUP_ID = Some ''reader-id'', UPLOADER_GROUP_ID = Some ''uploader-id'',
               ADMIN_GROUP_ID = Some ''admin-id''\<rparr>"

section \<open>Properties of the listing and of the folder tree\<close>

text \<open>
  C7.  When the listing request of \<open>fetchFiles\<close> fails, \<open>files\<close> and \<open>folders\<close> (and the
  current path, the tree cache and the expanded paths) keep their values from before
  the call, the error message is the generic \<open>Failed to fetch files.\<close>, the loading
  flag is reset and no further request is made.
\<close>

theorem fetchFiles_failure_keeps_listing:
  assumes "axios be (calls w) (GET_files token (listQuery folderPath)) = Inl e"
  shows "files (fetchFiles be token folderPath w) = files w
       \<and> folders (fetchFiles be token folderPath w) = folders w
       \<and> currentPath (fetchFiles be token folderPath w) = currentPath w
       \<and> treeCache (fetchFiles be token folderPath w) = treeCache w
       \<and> expandedPaths (fetchFiles be token folderPath w) = expandedPaths w
       \<and> error (fetchFiles be token folderPath w) = Some ''Failed to fetch files.''
       \<and> loading (fetchFiles be token folderPath w) = False
       \<and> calls (fetchFiles be token folderPath w)
           = calls w @ [Axios (GET_files token (listQuery folderPath))]"
  using assms
  by (simp add: fetchFiles_def fetchFiles_begin_def fetchFiles_settle_def send_def
        log_error_def)

theorem fetchFiles_failure_keeps_listing_witness:
  "axios offline (calls browsing) (GET_files ''tok'' (listQuery ''docs'')) = Inl RequestFailed
   \<and> files (fetchFiles offline ''tok'' ''docs'' browsing) = [sample_file]
   \<and> folders (fetchFiles offline ''tok'' ''docs'' browsing) = [sample_folder]
   \<and> error (fetchFiles offline ''tok'' ''docs'' browsing) = Some ''Failed to fetch files.''"
proof -
  have h: "axios offline (calls browsing) (GET_files ''tok'' (listQuery ''docs''))
             = Inl RequestFailed"
    by (simp add: offline_def)
  show ?thesis
    using h fetchFiles_failure_keeps_listing [OF h]
    by (simp add: browsing_def)
qed

text \<open>
  C9.  Toggling a path that is a key of the tree cache issues no external call at all
  (no token acquisition, no request) and leaves the cache, hence the entry of the path,
  as it was.
\<close>

theorem toggleExpand_cached_no_calls:
  assumes "treeCache w p = Some fs"
  shows "calls (toggleExpand be p w) = calls w
       \<and> treeCache (toggleExpand be p w) = treeCache w
       \<and> treeCache (toggleExpand be p w) p = Some fs"
  using assms by (simp add: toggleExpand_def notInTreeCache_def Let_def)

theorem toggleExpand_cached_no_calls_witness:
  "treeCache browsing ''docs'' = Some [sample_folder]
   \<and> ''docs'' \<notin> expandedPaths browsing
   \<and> calls (toggleExpand offline ''docs'' browsing) = []
   \<and> treeCache (toggleExpand offline ''docs'' browsing) ''docs'' = Some [sample_folder]
   \<and> ''docs'' \<in> expandedPaths (toggleExpand offline ''docs'' browsing)"
proof -
  have h: "treeCache browsing ''docs'' = Some [sample_folder]"
    by (simp add: browsing_def)
  have c: "calls browsing = []"
    by (simp add: browsing_def initial_def)
  have e: "''docs'' \<notin> expandedPaths browsing"
    by (simp add: browsing_def initial_def)
  have x: "''docs'' \<in> expandedPaths (toggleExpand offline ''docs'' browsing)"
    using h e by (simp add: toggleExpand_def notInTreeCache_def Let_def)
  show ?thesis
    using h c e x toggleExpand_cached_no_calls [OF h, of offline] by simp
qed

lemma loadTreeNode_failure:
  assumes "acquireTokenSilent be (calls w) = Inl e
         \<or> (\<exists>t e'. acquireTokenSilent be (calls w) = Inr t
              \<and> axios be (calls w @ [AcquireTokenSilent])
                    (GET_files t (listQuery (if p = ''/'' then [] else p))) = Inl e')"
  shows "treeCache (loadTreeNode be p w) = treeCache w"
    and "error (loadTreeNode be p w) = error w"
    and "last (console (loadTreeNode be p w)) = Warn ''Failed to load tree node:''"
    and "AcquireTokenSilent \<in> set (calls (loadTreeNode be p w))"
  using assms
  by (auto simp add: loadTreeNode_def getAccessToken_def send_def warn_def log_error_def
        Let_def)

text \<open>
  C10.  Toggling a collapsed path that is not a key of the tree cache adds the path to
  the expanded paths also when the load of its children fails (the token cannot be
  acquired, or the listing request fails): the error state keeps its value, the cache
  gets no entry, and the node renders as expanded with an empty list of children.  The
  load is attempted, and its failure written to the console as a warning, for every path
  but the names of inherited properties, for which \<open>treeCache[path]\<close> is truthy and
  nothing is loaded.
\<close>

theorem toggleExpand_failed_load_expands:
  assumes "p \<notin> expandedPaths w" and "treeCache w p = None"
    and "acquireTokenSilent be (calls w) = Inl e
         \<or> (\<exists>t e'. acquireTokenSilent be (calls w) = Inr t
              \<and> axios be (calls w @ [AcquireTokenSilent])
                    (GET_files t (listQuery (if p = ''/'' then [] else p))) = Inl e')"
  shows "expandedPaths (toggleExpand be p w) = insert p (expandedPaths w)
       \<and> error (toggleExpand be p w) = error w
       \<and> treeCache (toggleExpand be p w) = treeCache w
       \<and> TreeNode (Suc n) (treeCache (toggleExpand be p w))
            (expandedPaths (toggleExpand be p w)) p name
            (p \<in> expandedPaths (toggleExpand be p w))
            (childrenFolders (treeCache (toggleExpand be p w)) p)
          = Some (NodeView p name True [])
       \<and> (\<not> inheritedProperty p \<longrightarrow>
            AcquireTokenSilent \<in> set (calls (toggleExpand be p w))
            \<and> last (console (toggleExpand be p w)) = Warn ''Failed to load tree node:'')
       \<and> (inheritedProperty p \<longrightarrow>
            calls (toggleExpand be p w) = calls w
            \<and> console (toggleExpand be p w) = console w)"
proof (cases "inheritedProperty p")
  case True
  then have w': "toggleExpand be p w = w\<lparr>expandedPaths := insert p (expandedPaths w)\<rparr>"
    using assms(1) by (simp add: toggleExpand_def notInTreeCache_def Let_def)
  have "childrenFolders (treeCache w) p = []"
    using assms(2) by (simp add: childrenFolders_def)
  then show ?thesis
    using True by (simp add: w')
next
  case False
  then have w': "toggleExpand be p w
              = (loadTreeNode be p w)\<lparr>expandedPaths := insert p (expandedPaths w)\<rparr>"
    using assms(1,2) by (simp add: toggleExpand_def notInTreeCache_def Let_def)
  have c: "treeCache (toggleExpand be p w) = treeCache w"
    using loadTreeNode_failure(1) [OF assms(3)] by (simp add: w')
  have k: "childrenFolders (treeCache (toggleExpand be p w)) p = []"
    using assms(2) by (simp add: c childrenFolders_def)
  show ?thesis
    using loadTreeNode_failure [OF assms(3)] k False by (simp add: w')
qed

theorem toggleExpand_failed_load_expands_witness:
  "''docs'' \<notin> expandedPaths initial \<and> treeCache initial ''docs'' = None
   \<and> \<not> inheritedProperty ''docs''
   \<and> ''docs'' \<in> expandedPaths (toggleExpand offline ''docs'' initial)
   \<and> error (toggleExpand offline ''docs'' initial) = None
   \<and> treeCache (toggleExpand offline ''docs'' initial) ''docs'' = None
   \<and> last (console (toggleExpand offline ''docs'' initial)) = Warn ''Failed to load tree node:''
   \<and> TreeNode (Suc 0) (treeCache (toggleExpand offline ''docs'' initial))
        (expandedPaths (toggleExpand offline ''docs'' initial)) ''docs'' ''docs''
        (''docs'' \<in> expandedPaths (toggleExpand offline ''docs'' initial))
        (childrenFolders (treeCache (toggleExpand offline ''docs'' initial)) ''docs'')
      = Some (NodeView ''docs'' ''docs'' True [])
   \<and> ''constructor'' \<notin> expandedPaths initial \<and> treeCache initial ''constructor'' = None
   \<and> inheritedProperty ''constructor''
   \<and> ''constructor'' \<in> expandedPaths (toggleExpand offline ''constructor'' initial)
   \<and> calls (toggleExpand offline ''constructor'' initial) = []"
proof -
  have a: "''docs'' \<notin> expandedPaths initial" and a': "''constructor'' \<notin> expandedPaths initial"
    by (simp_all add: initial_def)
  have b: "treeCache initial ''docs'' = None" and b': "treeCache initial ''constructor'' = None"
    by (simp_all add: initial_def)
  have i: "\<not> inheritedProperty ''docs''" and i': "inheritedProperty ''constructor''"
    by (simp_all add: inheritedProperty_def)
  have f: "acquireTokenSilent offline (calls initial) = Inl RequestFailed
         \<or> (\<exists>t e'. acquireTokenSilent offline (calls initial) = Inr t
              \<and> axios offline (calls initial @ [AcquireTokenSilent])
                    (GET_files t (listQuery (if p = ''/'' then [] else p))) = Inl e')" for p
    by (simp add: offline_def)
  have e: "error initial = None" and c0: "calls initial = []"
    by (simp_all add: initial_def)
  note th = toggleExpand_failed_load_expands [OF a b f, of 0 "''docs''"]
  note th' = toggleExpand_failed_load_expands [OF a' b' f, of 0 "''constructor''"]
  have x: "''docs'' \<in> expandedPaths (toggleExpand offline ''docs'' initial)"
    using th by blast
  have y: "error (toggleExpand offline ''docs'' initial) = None"
    using th e by metis
  have z: "treeCache (toggleExpand offline ''docs'' initial) ''docs'' = None"
    using th b by metis
  have l: "last (console (toggleExpand offline ''docs'' initial)) = Warn ''Failed to load tree node:''"
    using th i by blast
  have x': "''constructor'' \<in> expandedPaths (toggleExpand offline ''constructor'' initial)"
    using th' by blast
  have k': "calls (toggleExpand offline ''constructor'' initial) = []"
    using th' i' c0 by metis
  show ?thesis
    using a b i x y z l th a' b' i' x' k' by blast
qed

lemma toggleExpand_load_caches_reported_path:
  assumes "p \<notin> expandedPaths w" and "notInTreeCache (treeCache w) p"
    and "acquireTokenSilent be (calls w) = Inr t"
    and "axios be (calls w @ [AcquireTokenSilent])
           (GET_files t (listQuery (if p = ''/'' then [] else p))) = Inr d"
  shows "treeCache (toggleExpand be p w)
           = (treeCache w)(orRoot (r_currentPath d) \<mapsto> orEmpty (r_folders d))"
  using assms
  by (simp add: toggleExpand_def loadTreeNode_def getAccessToken_def send_def
        cacheListing_def Let_def)


section \<open>Properties of the upload\<close>

lemma uploadCalls_append [simp]: "uploadCalls (xs @ ys) = uploadCalls xs @ uploadCalls ys"
  by (simp add: uploadCalls_def)

lemma uploadCalls_simps [simp]:
  "uploadCalls [] = []"
  "uploadCalls (AcquireTokenSilent # cs) = uploadCalls cs"
  "uploadCalls (Axios rq # cs) = (if isUploadRequest rq then rq # uploadCalls cs else uploadCalls cs)"
  by (simp_all add: uploadCalls_def)















lemma totalChunksOf_big: "totalChunksOf big_file = 3"
  by (simp add: totalChunksOf_def CHUNK_SIZE_def big_file_def)

text \<open>
  C2, at a failing input.  A file of 120 MiB is selected and the gateway fails the
  request for chunk \<open>0\<close>.  \<open>handleUpload\<close> reports \<open>Failed to upload file.\<close> and resets
  the loading flag, and the progress state set before the first chunk is still there:
  \<open>setUploadProgress(null)\<close> is the last statement of \<open>handleChunkedUpload\<close> and
  is not reached, and the \<open>catch\<close> and \<open>finally\<close> blocks of \<open>handleUpload\<close> do not
  touch the progress state.
\<close>

theorem handleUpload_failed_chunk_keeps_progress:
  "fst (handleUpload offline (initial\<lparr>selectedFile := Some big_file\<rparr>))
     = initial\<lparr>selectedFile := Some big_file,
               uploadProgress := Some \<lparr>pr_current = 0, pr_total = 3,
                                       pr_filename = ''big.bin'', pr_committing = False\<rparr>,
               error := Some ''Failed to upload file.'',
               calls := [AcquireTokenSilent,
                         Axios (POST_chunked ''tok'' ''big.bin'' 0 3 [] 0 52428800)],
               console := [Err ''Upload error:'']\<rparr>"
  by (simp add: handleUpload_def getAccessToken_def handleChunkedUpload_def
        uploadChunks.simps [of _ _ _ _ _ 0] send_def upload_failed_def log_error_def
        totalChunksOf_big [unfolded big_file_def] USE_CHUNKED_THRESHOLD_def CHUNK_SIZE_def folderParam_def
        offline_def initial_def big_file_def Let_def)

lemma new_not_blank: "\<not> isBlank ''new''"
  by code_simp

text \<open>
  C3, at a failing input.  The folder \<open>new\<close> is created in \<open>docs\<close> with the token
  \<open>tok\<close>.  The refresh that follows is \<open>fetchFiles(currentPath)\<close>: its request has the
  current path \<open>docs\<close> in the place of the bearer token and no folder parameter, that
  is, it lists the root; the gateway rejects it and the view shows
  \<open>Failed to fetch files.\<close>
\<close>

theorem handleCreateFolder_refresh_request:
  "calls (handleCreateFolder gateway naming)
     = [AcquireTokenSilent,
        Axios (POST_create_folder ''tok'' ''docs/new''),
        Axios (GET_files ''docs'' None)]
   \<and> error (handleCreateFolder gateway naming) = Some ''Failed to fetch files.''"
  by (simp add: handleCreateFolder_def new_not_blank getAccessToken_def send_def fetchFiles_def
        fetchFiles_begin_def fetchFiles_settle_def listQuery_def log_error_def addFolder_def
        childrenFolders_def gateway_def gateway_reply_def naming_def browsing_def initial_def
        no_data_def sample_folder_def Let_def)

section \<open>Properties of the existence polling\<close>

lemma handleUpload_small:
  "handleUpload gateway (initial\<lparr>selectedFile := Some small_file\<rparr>) = (uploaded, Some polling0)"
  by (simp add: handleUpload_def getAccessToken_def send_def USE_CHUNKED_THRESHOLD_def
        folderParam_def gateway_def gateway_reply_def initial_def small_file_def no_data_def
        uploaded_def polling0_def Let_def)

lemma poll_run_append: "poll_run be (xs @ ys) wp = poll_run be ys (poll_run be xs wp)"
  by (simp add: poll_run_def)

lemma poll_run_Nil [simp]: "poll_run be [] wp = wp"
  by (simp add: poll_run_def)

lemma poll_run_Cons: "poll_run be (ev # evs) wp = poll_run be evs (poll_step be ev wp)"
  by (simp add: poll_run_def)

lemma timely_Suc: "timely (Suc k) = timely k @ [Tick, Settle (Suc k)]"
  by (simp add: timely_def)

lemma ticks_only:
  "po_active po \<Longrightarrow>
   calls (fst (poll_run be (replicate n Tick) (w, po)))
     = calls w @ replicate n (Axios (GET_exists (po_token po) (po_startedPath po)))
   \<and> po_attempts (snd (poll_run be (replicate n Tick) (w, po))) = po_attempts po + n
   \<and> po_elapsedMs (snd (poll_run be (replicate n Tick) (w, po)))
       = po_elapsedMs po + n * pollIntervalMs
   \<and> po_active (snd (poll_run be (replicate n Tick) (w, po)))"
proof (induction n arbitrary: w po)
  case 0
  then show ?case by simp
next
  case (Suc n)
  let ?rq = "GET_exists (po_token po) (po_startedPath po)"
  let ?w1 = "w\<lparr>calls := calls w @ [Axios ?rq]\<rparr>"
  let ?po1 = "po\<lparr>po_attempts := po_attempts po + 1,
                  po_inflight := po_inflight po @ [(po_attempts po + 1, axios be (calls w) ?rq)],
                  po_elapsedMs := po_elapsedMs po + pollIntervalMs\<rparr>"
  have step: "poll_step be Tick (w, po) = (?w1, ?po1)"
    using Suc.prems by (simp add: poll_step_def send_def Let_def)
  have "po_active ?po1"
    using Suc.prems by simp
  from Suc.IH [OF this, of ?w1] show ?case
    by (simp add: poll_run_Cons step replicate_app_Cons_same)
qed

lemma timely_state:
  assumes "po_active po" and "po_attempts po = 0" and "po_inflight po = []"
    and never: "\<forall>h d. axios be h (GET_exists (po_token po) (po_startedPath po)) = Inr d
                  \<longrightarrow> \<not> r_exists d"
  shows "k \<le> maxAttempts \<Longrightarrow>
         \<exists>cs. poll_run be (timely k) (w, po)
                = (w\<lparr>calls := calls w
                             @ replicate k (Axios (GET_exists (po_token po) (po_startedPath po))),
                      console := console w @ cs\<rparr>,
                   po\<lparr>po_attempts := k, po_active := (k < maxAttempts), po_inflight := [],
                       po_elapsedMs := po_elapsedMs po + k * pollIntervalMs\<rparr>)"
proof (induction k)
  case 0
  have "po\<lparr>po_attempts := 0, po_active := True, po_inflight := [],
                       po_elapsedMs := po_elapsedMs po\<rparr> = po"
    using assms(1-3) by simp
  then show ?case
    by (intro exI [of _ "[]"]) (simp add: timely_def maxAttempts_def)
next
  case (Suc k)
  let ?rq = "GET_exists (po_token po) (po_startedPath po)"
  from Suc obtain cs where S:
    "poll_run be (timely k) (w, po)
       = (w\<lparr>calls := calls w @ replicate k (Axios ?rq), console := console w @ cs\<rparr>,
          po\<lparr>po_attempts := k, po_active := True, po_inflight := [],
                       po_elapsedMs := po_elapsedMs po + k * pollIntervalMs\<rparr>)"
    by auto
  let ?wk = "w\<lparr>calls := calls w @ replicate k (Axios ?rq), console := console w @ cs\<rparr>"
  let ?reply = "axios be (calls ?wk) ?rq"
  let ?w1 = "?wk\<lparr>calls := calls ?wk @ [Axios ?rq]\<rparr>"
  have tick: "poll_step be Tick (?wk, po\<lparr>po_attempts := k, po_active := True, po_inflight := [],
                       po_elapsedMs := po_elapsedMs po + k * pollIntervalMs\<rparr>)
                = (?w1, po\<lparr>po_attempts := Suc k, po_active := True,
                            po_inflight := [(Suc k, ?reply)],
                            po_elapsedMs := po_elapsedMs po + Suc k * pollIntervalMs\<rparr>)"
    by (simp add: poll_step_def send_def Let_def)
  have settle: "\<exists>cs'. poll_step be (Settle (Suc k))
                   (?w1, po\<lparr>po_attempts := Suc k, po_active := True,
                             po_inflight := [(Suc k, ?reply)],
                             po_elapsedMs := po_elapsedMs po + Suc k * pollIntervalMs\<rparr>)
                 = (w\<lparr>calls := calls w @ replicate (Suc k) (Axios ?rq),
                       console := console w @ cs'\<rparr>,
                    po\<lparr>po_attempts := Suc k, po_active := (Suc k < maxAttempts),
                       po_inflight := [],
                       po_elapsedMs := po_elapsedMs po + Suc k * pollIntervalMs\<rparr>)"
  proof (cases ?reply)
    case (Inl e)
    then show ?thesis
      using Suc.prems
      by (intro exI [of _ "cs @ [Warn ''Exists check failed:'']"])
        (auto simp add: poll_step_def poll_settle_def warn_def replicate_append_same)
  next
    case (Inr d)
    then have "\<not> r_exists d"
      using never by blast
    then show ?thesis
      using Inr Suc.prems
      by (intro exI [of _ "if Suc k \<ge> maxAttempts then cs @ [Warn ''Polling timed out for'']
                           else cs"])
        (auto simp add: poll_step_def poll_settle_def warn_def replicate_append_same)
  qed
  show ?case
    using settle by (simp add: timely_Suc poll_run_append S poll_run_Cons tick)
qed

lemma poll_step_stopped:
  "\<not> po_active po \<Longrightarrow> po_inflight po = [] \<Longrightarrow> poll_step be ev (w, po) = (w, po)"
  by (cases ev) (simp_all add: poll_step_def)

lemma poll_run_stopped:
  "\<not> po_active po \<Longrightarrow> po_inflight po = [] \<Longrightarrow> poll_run be evs (w, po) = (w, po)"
  by (induction evs) (simp_all add: poll_run_Cons poll_step_stopped)

text \<open>
  C8, at a failing input.  After a single-request upload the first 99 existence checks
  are answered in time with \<open>exists\<close> false, and the 100th is still outstanding when
  the timer fires again.  The callback compares \<open>attempts\<close> with \<open>maxAttempts\<close> only
  after its request has settled, and the timer fires every 3000 ms whether or not a
  request is outstanding: the tick at 303000 ms issues a 101st check.
\<close>

theorem polling_late_reply_issues_101st_check:
  "handleUpload gateway (initial\<lparr>selectedFile := Some small_file\<rparr>) = (uploaded, Some polling0)
   \<and> calls (fst (poll_run gateway (timely 99 @ [Tick, Tick]) (uploaded, polling0)))
       = calls uploaded @ replicate 101 (Axios (GET_exists ''tok'' ''a.txt''))
   \<and> po_attempts (snd (poll_run gateway (timely 99 @ [Tick, Tick]) (uploaded, polling0))) = 101
   \<and> po_elapsedMs (snd (poll_run gateway (timely 99 @ [Tick, Tick]) (uploaded, polling0)))
       = 303000
   \<and> po_active (snd (poll_run gateway (timely 99 @ [Tick, Tick]) (uploaded, polling0)))
   \<and> maxAttempts = 100 \<and> pollIntervalMs = 3000"
proof -
  let ?rq = "GET_exists ''tok'' ''a.txt''"
  have a: "po_active polling0" and b: "po_attempts polling0 = 0" and c: "po_inflight polling0 = []"
    and t: "po_token polling0 = ''tok''" "po_startedPath polling0 = ''a.txt''"
    by (simp_all add: polling0_def)
  have n: "\<forall>h d. axios gateway h (GET_exists (po_token polling0) (po_startedPath polling0)) = Inr d
             \<longrightarrow> \<not> r_exists d"
    by (auto simp add: gateway_def gateway_reply_def polling0_def no_data_def)
  obtain cs where S: "poll_run gateway (timely 99) (uploaded, polling0)
      = (uploaded\<lparr>calls := calls uploaded @ replicate 99 (Axios ?rq),
                   console := console uploaded @ cs\<rparr>,
         polling0\<lparr>po_attempts := 99, po_active := True, po_inflight := [],
                       po_elapsedMs := po_elapsedMs polling0 + 99 * pollIntervalMs\<rparr>)"
    using timely_state [OF a b c n, of 99 uploaded] t by (auto simp add: maxAttempts_def)
  let ?w = "uploaded\<lparr>calls := calls uploaded @ replicate 99 (Axios ?rq),
                     console := console uploaded @ cs\<rparr>"
  let ?po = "polling0\<lparr>po_attempts := 99, po_active := True, po_inflight := [],
                       po_elapsedMs := po_elapsedMs polling0 + 99 * pollIntervalMs\<rparr>"
  have "po_active ?po"
    by simp
  from ticks_only [OF this, of gateway 2 ?w]
  have "calls (fst (poll_run gateway [Tick, Tick] (?w, ?po)))
          = calls uploaded @ replicate 99 (Axios ?rq) @ replicate 2 (Axios ?rq)
      \<and> po_attempts (snd (poll_run gateway [Tick, Tick] (?w, ?po))) = 101
      \<and> po_elapsedMs (snd (poll_run gateway [Tick, Tick] (?w, ?po))) = 303000
      \<and> po_active (snd (poll_run gateway [Tick, Tick] (?w, ?po)))"
    using t by (simp add: numeral_2_eq_2 polling0_def pollIntervalMs_def)
  moreover have "replicate 99 (Axios ?rq) @ replicate 2 (Axios ?rq) = replicate 101 (Axios ?rq)"
    by (simp add: replicate_add [symmetric])
  ultimately show ?thesis
    using handleUpload_small
    by (simp add: poll_run_append S maxAttempts_def pollIntervalMs_def)
qed

text \<open>
  When every existence check settles before the next tick the bound holds.  Let the
  polling start (no attempt made, timer running).  If no check reports existence (each
  fails or answers \<open>exists\<close> false), then after \<open>k \<le> 100\<close> ticks exactly \<open>k\<close>
  existence checks have been issued and nothing else, and the timer is still running
  exactly while \<open>k < 100\<close>: failed checks do not stop it early, and the 100th attempt
  stops it.  From then on no event changes anything; the listing state and the error
  state are as they were (no refresh).  In any state, a check that fails while fewer
  than 100 attempts have been made leaves the timer as it is.
\<close>

theorem polling_timely_stops_after_100:
  assumes "po_active po" and "po_attempts po = 0" and "po_inflight po = []"
    and "\<forall>h d. axios be h (GET_exists (po_token po) (po_startedPath po)) = Inr d
           \<longrightarrow> \<not> r_exists d"
  shows "(\<forall>k\<le>100.
            calls (fst (poll_run be (timely k) (w, po)))
              = calls w @ replicate k (Axios (GET_exists (po_token po) (po_startedPath po)))
          \<and> po_attempts (snd (poll_run be (timely k) (w, po))) = k
          \<and> po_active (snd (poll_run be (timely k) (w, po))) = (k < 100))
       \<and> (\<forall>evs. poll_run be (timely 100 @ evs) (w, po) = poll_run be (timely 100) (w, po))
       \<and> files (fst (poll_run be (timely 100) (w, po))) = files w
       \<and> folders (fst (poll_run be (timely 100) (w, po))) = folders w
       \<and> currentPath (fst (poll_run be (timely 100) (w, po))) = currentPath w
       \<and> error (fst (poll_run be (timely 100) (w, po))) = error w
       \<and> (\<forall>k e w' po'. po_attempts po' < 100 \<and> map_of (po_inflight po') k = Some (Inl e)
            \<longrightarrow> po_active (snd (poll_step be (Settle k) (w', po'))) = po_active po')"
proof -
  let ?rq = "GET_exists (po_token po) (po_startedPath po)"
  have st: "\<exists>cs. poll_run be (timely k) (w, po)
                = (w\<lparr>calls := calls w @ replicate k (Axios ?rq), console := console w @ cs\<rparr>,
                   po\<lparr>po_attempts := k, po_active := (k < 100), po_inflight := [],
                       po_elapsedMs := po_elapsedMs po + k * pollIntervalMs\<rparr>)"
    if "k \<le> 100" for k
    using timely_state [OF assms, of k w] that by (simp add: maxAttempts_def)
  have a: "calls (fst (poll_run be (timely k) (w, po))) = calls w @ replicate k (Axios ?rq)
         \<and> po_attempts (snd (poll_run be (timely k) (w, po))) = k
         \<and> po_active (snd (poll_run be (timely k) (w, po))) = (k < 100)"
    if "k \<le> 100" for k
    using st [OF that] by auto
  obtain cs where S: "poll_run be (timely 100) (w, po)
      = (w\<lparr>calls := calls w @ replicate 100 (Axios ?rq), console := console w @ cs\<rparr>,
         po\<lparr>po_attempts := 100, po_active := False, po_inflight := [],
                       po_elapsedMs := po_elapsedMs po + 100 * pollIntervalMs\<rparr>)"
    using st [of 100] by auto
  have b: "poll_run be (timely 100 @ evs) (w, po) = poll_run be (timely 100) (w, po)" for evs
    by (simp add: poll_run_append S poll_run_stopped)
  have c: "po_active (snd (poll_step be (Settle k) (w', po'))) = po_active po'"
    if "po_attempts po' < 100" and "map_of (po_inflight po') k = Some (Inl e)"
    for k e w' po'
    using that by (simp add: poll_step_def poll_settle_def maxAttempts_def)
  show ?thesis
    using a b c by (simp add: S)
qed

theorem polling_timely_stops_after_100_witness:
  "po_active polling0 \<and> po_attempts polling0 = 0 \<and> po_inflight polling0 = []
   \<and> calls (fst (poll_run gateway (timely 100) (uploaded, polling0)))
       = calls uploaded @ replicate 100 (Axios (GET_exists ''tok'' ''a.txt''))
   \<and> po_attempts (snd (poll_run gateway (timely 100) (uploaded, polling0))) = 100
   \<and> \<not> po_active (snd (poll_run gateway (timely 100) (uploaded, polling0)))
   \<and> po_active (snd (poll_run gateway (timely 99) (uploaded, polling0)))
   \<and> poll_run gateway (timely 100 @ [Tick, Tick]) (uploaded, polling0)
       = poll_run gateway (timely 100) (uploaded, polling0)
   \<and> files (fst (poll_run gateway (timely 100) (uploaded, polling0))) = []
   \<and> error (fst (poll_run gateway (timely 100) (uploaded, polling0))) = None
   \<and> po_attempts retrying < 100 \<and> map_of (po_inflight retrying) 1 = Some (Inl RequestFailed)
   \<and> po_active (snd (poll_step gateway (Settle 1) (uploaded, retrying)))"
proof -
  have a: "po_active polling0" and b: "po_attempts polling0 = 0" and c: "po_inflight polling0 = []"
    by (simp_all add: polling0_def)
  have n: "\<forall>h d. axios gateway h (GET_exists (po_token polling0) (po_startedPath polling0)) = Inr d
             \<longrightarrow> \<not> r_exists d"
    by (auto simp add: gateway_def gateway_reply_def polling0_def no_data_def)
  note th = polling_timely_stops_after_100 [OF a b c n, of uploaded]
  have t: "po_token polling0 = ''tok''" "po_startedPath polling0 = ''a.txt''"
    by (simp_all add: polling0_def)
  have k100: "calls (fst (poll_run gateway (timely 100) (uploaded, polling0)))
                = calls uploaded @ replicate 100 (Axios (GET_exists ''tok'' ''a.txt''))
            \<and> po_attempts (snd (poll_run gateway (timely 100) (uploaded, polling0))) = 100
            \<and> \<not> po_active (snd (poll_run gateway (timely 100) (uploaded, polling0)))"
    using th t by auto
  have k99: "po_active (snd (poll_run gateway (timely 99) (uploaded, polling0)))"
    using th by auto
  have more: "poll_run gateway (timely 100 @ [Tick, Tick]) (uploaded, polling0)
                = poll_run gateway (timely 100) (uploaded, polling0)"
    using th by blast
  have same: "files (fst (poll_run gateway (timely 100) (uploaded, polling0))) = []"
    "error (fst (poll_run gateway (timely 100) (uploaded, polling0))) = None"
    using th by (simp_all add: uploaded_def initial_def)
  have r: "po_attempts retrying < 100"
    "map_of (po_inflight retrying) 1 = Some (Inl RequestFailed)" "po_active retrying"
    by (simp_all add: retrying_def polling0_def)
  have tr: "po_active (snd (poll_step gateway (Settle 1) (uploaded, retrying)))"
    using th r by blast
  show ?thesis
    using a b c k100 k99 more same r tr by blast
qed

section \<open>Properties of token decoding and of the roles\<close>

lemma userRoles_fetchFiles [simp]:
  "userRoles (fetchFiles be token folderPath w) = userRoles w"
  by (simp add: fetchFiles_def fetchFiles_begin_def fetchFiles_settle_def refreshRoot_def
        cacheListing_def send_def warn_def log_error_def Let_def split: sum.splits)

lemma userRoles_fetchFiles_basic [simp]:
  "userRoles (fetchFiles_basic be token w) = userRoles w"
  by (simp add: fetchFiles_basic_def send_def log_error_def split: sum.splits)

lemma deriveRoles_array:
  "deriveRoles cfg (JArray gs)
     = Inr \<lparr>isReader = (case READER_GROUP_ID cfg of None \<Rightarrow> False | Some s \<Rightarrow> JString s \<in> set gs),
            isUploader = (case UPLOADER_GROUP_ID cfg of None \<Rightarrow> False | Some s \<Rightarrow> JString s \<in> set gs),
            isAdmin = (case ADMIN_GROUP_ID cfg of None \<Rightarrow> False | Some s \<Rightarrow> JString s \<in> set gs)\<rparr>"
  by (simp add: deriveRoles_def js_includes_def)

text \<open>
  The role flags.  Let the token be acquired and decoded, and let its \<open>groups\<close> claim
  be an array (an absent claim counts as the empty array).  The role flags that either
  variant of the component sets are a function of that array and of the three
  configured identifiers alone: each flag is true exactly when its identifier is
  configured and is an element of the array.  For the empty array all three flags are
  false, the error is the permission message and \<open>initializeComponent\<close> calls no
  \<open>fetchFiles\<close>: its only external call is the acquisition of the token.
\<close>

theorem roles_from_groups:
  assumes "acquireTokenSilent be (calls w) = Inr token"
    and "decodeToken pf token = Inr decoded"
    and "groupsOf decoded = Inr (JArray gs)"
    and "rs = \<lparr>isReader = (case READER_GROUP_ID cfg of None \<Rightarrow> False | Some s \<Rightarrow> JString s \<in> set gs),
               isUploader = (case UPLOADER_GROUP_ID cfg of None \<Rightarrow> False | Some s \<Rightarrow> JString s \<in> set gs),
               isAdmin = (case ADMIN_GROUP_ID cfg of None \<Rightarrow> False | Some s \<Rightarrow> JString s \<in> set gs)\<rparr>"
  shows "deriveRoles cfg (JArray gs) = Inr rs
       \<and> userRoles (initializeComponent pf cfg be w) = rs
       \<and> userRoles (initializeComponent_basic pf cfg be w) = rs
       \<and> (gs = [] \<longrightarrow>
            rs = \<lparr>isReader = False, isUploader = False, isAdmin = False\<rparr>
            \<and> error (initializeComponent pf cfg be w)
                = Some ''You do not have permission to access files.''
            \<and> calls (initializeComponent pf cfg be w) = calls w @ [AcquireTokenSilent]
            \<and> error (initializeComponent_basic pf cfg be w)
                = Some ''You do not have permission to access files.''
            \<and> calls (initializeComponent_basic pf cfg be w) = calls w @ [AcquireTokenSilent])
       \<and> (\<forall>kvs. map_of (rev kvs) ''groups'' = None \<longrightarrow> groupsOf (JObject kvs) = Inr (JArray []))"
proof -
  have d: "deriveRoles cfg (JArray gs) = Inr rs"
    using assms(4) by (simp add: deriveRoles_array)
  have t: "getAccessToken be w = (Inr token, w\<lparr>calls := calls w @ [AcquireTokenSilent]\<rparr>)"
    using assms(1) by (simp add: getAccessToken_def Let_def)
  have r1: "userRoles (initializeComponent pf cfg be w) = rs"
    using t assms(2,3) d by (simp add: initializeComponent_def)
  have r2: "userRoles (initializeComponent_basic pf cfg be w) = rs"
    using t assms(2,3) d by (simp add: initializeComponent_basic_def)
  have e: "rs = \<lparr>isReader = False, isUploader = False, isAdmin = False\<rparr>
         \<and> error (initializeComponent pf cfg be w)
             = Some ''You do not have permission to access files.''
         \<and> calls (initializeComponent pf cfg be w) = calls w @ [AcquireTokenSilent]
         \<and> error (initializeComponent_basic pf cfg be w)
             = Some ''You do not have permission to access files.''
         \<and> calls (initializeComponent_basic pf cfg be w) = calls w @ [AcquireTokenSilent]"
    if "gs = []"
  proof -
    have z: "rs = \<lparr>isReader = False, isUploader = False, isAdmin = False\<rparr>"
      using that assms(4) by (simp split: option.splits)
    have d0: "deriveRoles cfg (JArray gs) = Inr \<lparr>isReader = False, isUploader = False, isAdmin = False\<rparr>"
      using d z by simp
    show ?thesis
      using t assms(2,3) d0 z
      by (simp add: initializeComponent_def initializeComponent_basic_def)
  qed
  have g: "groupsOf (JObject kvs) = Inr (JArray [])" if "map_of (rev kvs) ''groups'' = None" for kvs
    using that by (simp add: groupsOf_def)
  show ?thesis
    using d r1 r2 e g by blast
qed

theorem roles_from_groups_witness:
  "decodeToken browser ''h.eyJncm91cHMiOlsicmVhZGVyLWlkIl19.s''
     = Inr (JObject [(''groups'', JArray [JString ''reader-id''])])
   \<and> userRoles (initializeComponent browser groupIds
                   (issuing ''h.eyJncm91cHMiOlsicmVhZGVyLWlkIl19.s'') initial)
       = \<lparr>isReader = True, isUploader = False, isAdmin = False\<rparr>
   \<and> decodeToken browser ''h.eyJncm91cHMiOltdfQ.s'' = Inr (JObject [(''groups'', JArray [])])
   \<and> userRoles (initializeComponent browser groupIds (issuing ''h.eyJncm91cHMiOltdfQ.s'') initial)
       = \<lparr>isReader = False, isUploader = False, isAdmin = False\<rparr>
   \<and> error (initializeComponent browser groupIds (issuing ''h.eyJncm91cHMiOltdfQ.s'') initial)
       = Some ''You do not have permission to access files.''
   \<and> calls (initializeComponent browser groupIds (issuing ''h.eyJncm91cHMiOltdfQ.s'') initial)
       = [AcquireTokenSilent]
   \<and> map_of (rev [(''sub'', JString ''u1'')]) ''groups'' = None
   \<and> groupsOf (JObject [(''sub'', JString ''u1'')]) = Inr (JArray [])"
proof -
  let ?t1 = "''h.eyJncm91cHMiOlsicmVhZGVyLWlkIl19.s''"
  let ?t0 = "''h.eyJncm91cHMiOltdfQ.s''"
  let ?rs1 = "\<lparr>isReader = (case READER_GROUP_ID groupIds of None \<Rightarrow> False
                             | Some s \<Rightarrow> JString s \<in> set [JString ''reader-id'']),
               isUploader = (case UPLOADER_GROUP_ID groupIds of None \<Rightarrow> False
                             | Some s \<Rightarrow> JString s \<in> set [JString ''reader-id'']),
               isAdmin = (case ADMIN_GROUP_ID groupIds of None \<Rightarrow> False
                          | Some s \<Rightarrow> JString s \<in> set [JString ''reader-id''])\<rparr>"
  let ?rs0 = "\<lparr>isReader = (case READER_GROUP_ID groupIds of None \<Rightarrow> False
                             | Some s \<Rightarrow> JString s \<in> set []),
               isUploader = (case UPLOADER_GROUP_ID groupIds of None \<Rightarrow> False
                             | Some s \<Rightarrow> JString s \<in> set []),
               isAdmin = (case ADMIN_GROUP_ID groupIds of None \<Rightarrow> False
                          | Some s \<Rightarrow> JString s \<in> set [])\<rparr>"
  have a1: "acquireTokenSilent (issuing ?t1) (calls initial) = Inr ?t1"
    and a0: "acquireTokenSilent (issuing ?t0) (calls initial) = Inr ?t0"
    by (simp_all add: issuing_def)
  have d1: "decodeToken browser ?t1 = Inr (JObject [(''groups'', JArray [JString ''reader-id''])])"
    by code_simp
  have d0: "decodeToken browser ?t0 = Inr (JObject [(''groups'', JArray [])])"
    by code_simp
  have g1: "groupsOf (JObject [(''groups'', JArray [JString ''reader-id''])])
              = Inr (JArray [JString ''reader-id''])"
    and g0: "groupsOf (JObject [(''groups'', JArray [])]) = Inr (JArray [])"
    by (simp_all add: groupsOf_def)
  have v1: "?rs1 = \<lparr>isReader = True, isUploader = False, isAdmin = False\<rparr>"
    and v0: "?rs0 = \<lparr>isReader = False, isUploader = False, isAdmin = False\<rparr>"
    by (simp_all add: groupIds_def)
  note th1 = roles_from_groups [OF a1 d1 g1, of ?rs1 groupIds, OF refl]
  note th0 = roles_from_groups [OF a0 d0 g0, of ?rs0 groupIds, OF refl]
  have u1: "userRoles (initializeComponent browser groupIds (issuing ?t1) initial)
              = \<lparr>isReader = True, isUploader = False, isAdmin = False\<rparr>"
    using th1 v1 by metis
  have u0: "userRoles (initializeComponent browser groupIds (issuing ?t0) initial)
              = \<lparr>isReader = False, isUploader = False, isAdmin = False\<rparr>"
    using th0 v0 by metis
  have e0: "error (initializeComponent browser groupIds (issuing ?t0) initial)
              = Some ''You do not have permission to access files.''"
    using th0 by blast
  have c0: "calls (initializeComponent browser groupIds (issuing ?t0) initial)
              = [AcquireTokenSilent]"
    using th0 by (simp add: initial_def)
  have m: "map_of (rev [(''sub'', JString ''u1'')]) ''groups'' = None"
    by simp
  have gs: "groupsOf (JObject [(''sub'', JString ''u1'')]) = Inr (JArray [])"
    using th0 m by blast
  show ?thesis
    using d1 u1 d0 u0 e0 c0 m gs by blast
qed

text \<open>
  C5, at a failing input.  The richest variant is mounted with a token whose \<open>groups\<close>
  claim is the empty array.  \<open>initializeComponent\<close> sets the three flags to false and
  the permission message and fetches nothing, as its comment says (\<open>Only fetch files if
  user is in at least the reader group\<close>).  The second effect of the mount lists the
  root all the same: the request \<open>GET /api/files\<close> is sent with the user's token, and
  the folders of the answer are in the tree cache under \<open>/\<close>, which is expanded.  Each
  effect first acquires its token, and with no role the first makes no other call, so
  the log of calls does not depend on the order in which the two effects continue.
\<close>

theorem mount_lists_root_without_roles:
  "decodeToken browser ''h.eyJncm91cHMiOltdfQ.s'' = Inr (JObject [(''groups'', JArray [])])
   \<and> preloadRootTree (serving ''h.eyJncm91cHMiOltdfQ.s'')
         (initializeComponent browser groupIds (serving ''h.eyJncm91cHMiOltdfQ.s'') initial)
       = initial\<lparr>userRoles := \<lparr>isReader = False, isUploader = False, isAdmin = False\<rparr>,
                 error := Some ''You do not have permission to access files.'',
                 calls := [AcquireTokenSilent, AcquireTokenSilent,
                           Axios (GET_files ''h.eyJncm91cHMiOltdfQ.s'' None)],
                 treeCache := [''/'' \<mapsto> [sample_folder]]\<rparr>
   \<and> ''/'' \<in> expandedPaths initial"
proof -
  have d: "decodeToken browser ''h.eyJncm91cHMiOltdfQ.s'' = Inr (JObject [(''groups'', JArray [])])"
    by code_simp
  have i: "initializeComponent browser groupIds (serving ''h.eyJncm91cHMiOltdfQ.s'') initial
             = initial\<lparr>calls := [AcquireTokenSilent],
                       userRoles := \<lparr>isReader = False, isUploader = False, isAdmin = False\<rparr>,
                       error := Some ''You do not have permission to access files.''\<rparr>"
    using d
    by (simp add: initializeComponent_def getAccessToken_def serving_def groupsOf_def
          deriveRoles_def js_includes_def groupIds_def initial_def Let_def)
  have p: "preloadRootTree (serving ''h.eyJncm91cHMiOltdfQ.s'')
             (initial\<lparr>calls := [AcquireTokenSilent],
                      userRoles := \<lparr>isReader = False, isUploader = False, isAdmin = False\<rparr>,
                      error := Some ''You do not have permission to access files.''\<rparr>)
           = initial\<lparr>userRoles := \<lparr>isReader = False, isUploader = False, isAdmin = False\<rparr>,
                     error := Some ''You do not have permission to access files.'',
                     calls := [AcquireTokenSilent, AcquireTokenSilent,
                               Axios (GET_files ''h.eyJncm91cHMiOltdfQ.s'' None)],
                     treeCache := [''/'' \<mapsto> [sample_folder]]\<rparr>"
    by (simp add: preloadRootTree_def getAccessToken_def send_def cacheListing_def
          serving_def orRoot_def orEmpty_def no_data_def initial_def Let_def)
  have e: "''/'' \<in> expandedPaths initial"
    by (simp add: initial_def)
  show ?thesis
    unfolding i p using d e by simp
qed

lemma init_failed_fields:
  "error (init_failed w) = Some ''Failed to initialize. Please log in again.''"
  "userRoles (init_failed w) = userRoles w"
  "calls (init_failed w) = calls w"
  "files (init_failed w) = files w"
  "folders (init_failed w) = folders w"
  "last (console (init_failed w)) = Err ''Initialization error:''"
  by (simp_all add: init_failed_def log_error_def)

text \<open>
  C6, as the code has it.  Let the token be acquired.  If the token has no second
  segment (it contains no dot), or base-64 decoding of its second segment fails, or the
  decoded octets are not UTF-8, or the text is not JSON, then \<open>decodeToken\<close> fails and
  either variant of the component ends in its \<open>catch\<close>: the error is
  \<open>Failed to initialize. Please log in again.\<close>, the failure is written to the
  console, the roles and the listing keep their values and no request is made.  Only
  the second segment is read; the number of segments is not checked.
\<close>

theorem malformed_token_fails_initialization:
  assumes "acquireTokenSilent be (calls w) = Inr token"
    and "length (split CHR ''.'' token) < 2
         \<or> (\<exists>s0 seg rest.
               split CHR ''.'' token = s0 # seg # rest
               \<and> (atob pf (replaceAll CHR ''_'' CHR ''/'' (replaceAll CHR ''-'' CHR ''+'' seg)) = Inl e
                  \<or> (\<exists>binary.
                        atob pf (replaceAll CHR ''_'' CHR ''/'' (replaceAll CHR ''-'' CHR ''+'' seg))
                          = Inr binary
                        \<and> (decodeURIComponent pf (concat (map percentEscape binary)) = Inl e
                           \<or> (\<exists>jsonPayload.
                                 decodeURIComponent pf (concat (map percentEscape binary))
                                   = Inr jsonPayload
                                 \<and> JSON_parse pf jsonPayload = Inl e)))))"
  shows "(\<exists>e'. decodeToken pf token = Inl e')
       \<and> error (initializeComponent pf cfg be w)
           = Some ''Failed to initialize. Please log in again.''
       \<and> userRoles (initializeComponent pf cfg be w) = userRoles w
       \<and> calls (initializeComponent pf cfg be w) = calls w @ [AcquireTokenSilent]
       \<and> files (initializeComponent pf cfg be w) = files w
       \<and> folders (initializeComponent pf cfg be w) = folders w
       \<and> last (console (initializeComponent pf cfg be w)) = Err ''Initialization error:''
       \<and> error (initializeComponent_basic pf cfg be w)
           = Some ''Failed to initialize. Please log in again.''
       \<and> userRoles (initializeComponent_basic pf cfg be w) = userRoles w
       \<and> calls (initializeComponent_basic pf cfg be w) = calls w @ [AcquireTokenSilent]"
proof -
  have d: "\<exists>e'. decodeToken pf token = Inl e'"
    using assms(2)
  proof (elim disjE exE conjE)
    assume "length (split CHR ''.'' token) < 2"
    then show ?thesis
      by (cases "split CHR ''.'' token"; cases "tl (split CHR ''.'' token)")
        (auto simp add: decodeToken_def)
  qed (auto simp add: decodeToken_def Let_def)
  then obtain e' where e': "decodeToken pf token = Inl e'"
    by blast
  let ?w1 = "w\<lparr>calls := calls w @ [AcquireTokenSilent]\<rparr>"
  have t: "getAccessToken be w = (Inr token, ?w1)"
    using assms(1) by (simp add: getAccessToken_def Let_def)
  have i: "initializeComponent pf cfg be w = init_failed ?w1"
    using t e' by (simp add: initializeComponent_def)
  have b: "initializeComponent_basic pf cfg be w = init_failed ?w1"
    using t e' by (simp add: initializeComponent_basic_def)
  show ?thesis
    using d by (simp add: i b init_failed_fields)
qed


theorem malformed_token_fails_initialization_witness:
  "length (split CHR ''.'' ''garbage'') < 2
   \<and> error (initializeComponent browser groupIds (issuing ''garbage'') initial)
       = Some ''Failed to initialize. Please log in again.''
   \<and> calls (initializeComponent browser groupIds (issuing ''garbage'') initial)
       = [AcquireTokenSilent]
   \<and> split CHR ''.'' ''a.@@@.c'' = [''a'', ''@@@'', ''c'']
   \<and> atob browser ''@@@'' = Inl InvalidCharacterError
   \<and> error (initializeComponent browser groupIds (issuing ''a.@@@.c'') initial)
       = Some ''Failed to initialize. Please log in again.''
   \<and> split CHR ''.'' ''a._w.c'' = [''a'', ''_w'', ''c'']
   \<and> atob browser ''/w'' = Inr [CHR 0xFF]
   \<and> decodeURIComponent browser ''%ff'' = Inl URIError
   \<and> error (initializeComponent browser groupIds (issuing ''a._w.c'') initial)
       = Some ''Failed to initialize. Please log in again.''
   \<and> split CHR ''.'' ''a.ew.c'' = [''a'', ''ew'', ''c'']
   \<and> atob browser ''ew'' = Inr ''{''
   \<and> decodeURIComponent browser ''%7b'' = Inr ''{''
   \<and> JSON_parse browser ''{'' = Inl SyntaxError
   \<and> error (initializeComponent browser groupIds (issuing ''a.ew.c'') initial)
       = Some ''Failed to initialize. Please log in again.''
   \<and> userRoles (initializeComponent browser groupIds (issuing ''a.ew.c'') initial)
       = \<lparr>isReader = False, isUploader = False, isAdmin = False\<rparr>"
proof -
  have tok: "acquireTokenSilent (issuing t) (calls initial) = Inr t" for t
    by (simp add: issuing_def)
  have c0: "calls initial = []" and u0: "userRoles initial
      = \<lparr>isReader = False, isUploader = False, isAdmin = False\<rparr>"
    by (simp_all add: initial_def)
  \<comment> \<open>no second segment\<close>
  have g1: "length (split CHR ''.'' ''garbage'') < 2"
    by code_simp
  note th1 = malformed_token_fails_initialization
    [of "issuing ''garbage''" initial "''garbage''" browser TypeError groupIds, OF tok disjI1 [OF g1]]
  \<comment> \<open>a segment that is not base 64\<close>
  have s2: "split CHR ''.'' ''a.@@@.c'' = [''a'', ''@@@'', ''c'']"
    by code_simp
  have r2: "replaceAll CHR ''_'' CHR ''/'' (replaceAll CHR ''-'' CHR ''+'' ''@@@'') = ''@@@''"
    by code_simp
  have a2: "atob browser ''@@@'' = Inl InvalidCharacterError"
    by code_simp
  have h2: "length (split CHR ''.'' ''a.@@@.c'') < 2
         \<or> (\<exists>s0 seg rest.
               split CHR ''.'' ''a.@@@.c'' = s0 # seg # rest
               \<and> (atob browser (replaceAll CHR ''_'' CHR ''/'' (replaceAll CHR ''-'' CHR ''+'' seg))
                     = Inl InvalidCharacterError
                  \<or> (\<exists>binary.
                        atob browser (replaceAll CHR ''_'' CHR ''/'' (replaceAll CHR ''-'' CHR ''+'' seg))
                          = Inr binary
                        \<and> (decodeURIComponent browser (concat (map percentEscape binary))
                             = Inl InvalidCharacterError
                           \<or> (\<exists>jsonPayload.
                                 decodeURIComponent browser (concat (map percentEscape binary))
                                   = Inr jsonPayload
                                 \<and> JSON_parse browser jsonPayload = Inl InvalidCharacterError)))))"
    using s2 r2 a2 by auto
  note th2 = malformed_token_fails_initialization
    [of "issuing ''a.@@@.c''" initial "''a.@@@.c''" browser InvalidCharacterError groupIds,
     OF tok h2]
  \<comment> \<open>octets that are not UTF-8\<close>
  have s3: "split CHR ''.'' ''a._w.c'' = [''a'', ''_w'', ''c'']"
    by code_simp
  have r3: "replaceAll CHR ''_'' CHR ''/'' (replaceAll CHR ''-'' CHR ''+'' ''_w'') = ''/w''"
    by code_simp
  have a3: "atob browser ''/w'' = Inr [CHR 0xFF]"
    by code_simp
  have p3: "concat (map percentEscape [CHR 0xFF]) = ''%ff''"
    by code_simp
  have u3: "decodeURIComponent browser ''%ff'' = Inl URIError"
    by code_simp
  have h3: "length (split CHR ''.'' ''a._w.c'') < 2
         \<or> (\<exists>s0 seg rest.
               split CHR ''.'' ''a._w.c'' = s0 # seg # rest
               \<and> (atob browser (replaceAll CHR ''_'' CHR ''/'' (replaceAll CHR ''-'' CHR ''+'' seg))
                     = Inl URIError
                  \<or> (\<exists>binary.
                        atob browser (replaceAll CHR ''_'' CHR ''/'' (replaceAll CHR ''-'' CHR ''+'' seg))
                          = Inr binary
                        \<and> (decodeURIComponent browser (concat (map percentEscape binary))
                             = Inl URIError
                           \<or> (\<exists>jsonPayload.
                                 decodeURIComponent browser (concat (map percentEscape binary))
                                   = Inr jsonPayload
                                 \<and> JSON_parse browser jsonPayload = Inl URIError)))))"
    using s3 r3 a3 p3 u3 by auto
  note th3 = malformed_token_fails_initialization
    [of "issuing ''a._w.c''" initial "''a._w.c''" browser URIError groupIds, OF tok h3]
  \<comment> \<open>text that is not JSON\<close>
  have s4: "split CHR ''.'' ''a.ew.c'' = [''a'', ''ew'', ''c'']"
    by code_simp
  have r4: "replaceAll CHR ''_'' CHR ''/'' (replaceAll CHR ''-'' CHR ''+'' ''ew'') = ''ew''"
    by code_simp
  have a4: "atob browser ''ew'' = Inr ''{''"
    by code_simp
  have p4: "concat (map percentEscape ''{'') = ''%7b''"
    by code_simp
  have u4: "decodeURIComponent browser ''%7b'' = Inr ''{''"
    by code_simp
  have j4: "JSON_parse browser ''{'' = Inl SyntaxError"
    by code_simp
  have h4: "length (split CHR ''.'' ''a.ew.c'') < 2
         \<or> (\<exists>s0 seg rest.
               split CHR ''.'' ''a.ew.c'' = s0 # seg # rest
               \<and> (atob browser (replaceAll CHR ''_'' CHR ''/'' (replaceAll CHR ''-'' CHR ''+'' seg))
                     = Inl SyntaxError
                  \<or> (\<exists>binary.
                        atob browser (replaceAll CHR ''_'' CHR ''/'' (replaceAll CHR ''-'' CHR ''+'' seg))
                          = Inr binary
                        \<and> (decodeURIComponent browser (concat (map percentEscape binary))
                             = Inl SyntaxError
                           \<or> (\<exists>jsonPayload.
                                 decodeURIComponent browser (concat (map percentEscape binary))
                                   = Inr jsonPayload
                                 \<and> JSON_parse browser jsonPayload = Inl SyntaxError)))))"
    using s4 r4 a4 p4 u4 j4 by auto
  note th4 = malformed_token_fails_initialization
    [of "issuing ''a.ew.c''" initial "''a.ew.c''" browser SyntaxError groupIds, OF tok h4]
  have e1: "error (initializeComponent browser groupIds (issuing ''garbage'') initial)
              = Some ''Failed to initialize. Please log in again.''"
    and k1: "calls (initializeComponent browser groupIds (issuing ''garbage'') initial)
              = [AcquireTokenSilent]"
    using th1 c0 by simp_all
  have e2: "error (initializeComponent browser groupIds (issuing ''a.@@@.c'') initial)
              = Some ''Failed to initialize. Please log in again.''"
    using th2 by blast
  have e3: "error (initializeComponent browser groupIds (issuing ''a._w.c'') initial)
              = Some ''Failed to initialize. Please log in again.''"
    using th3 by blast
  have e4: "error (initializeComponent browser groupIds (issuing ''a.ew.c'') initial)
              = Some ''Failed to initialize. Please log in again.''"
    and v4: "userRoles (initializeComponent browser groupIds (issuing ''a.ew.c'') initial)
              = \<lparr>isReader = False, isUploader = False, isAdmin = False\<rparr>"
    using th4 u0 by simp_all
  show ?thesis
    using g1 e1 k1 s2 a2 e2 s3 a3 u3 e3 s4 a4 u4 j4 e4 v4 by blast
qed

text \<open>
  The claim as stated fails for tokens that do not have three segments and have a
  valid second one: \<open>x.e30\<close> (two segments) and \<open>a.e30.c.d\<close> (four) decode to the
  empty claims object, and the component goes on with zero roles and the permission
  message instead of asking to log in again.
\<close>

theorem segment_count_counterexample:
  "split CHR ''.'' ''x.e30'' = [''x'', ''e30'']
   \<and> decodeToken browser ''x.e30'' = Inr (JObject [])
   \<and> error (initializeComponent browser groupIds (issuing ''x.e30'') initial)
       = Some ''You do not have permission to access files.''
   \<and> userRoles (initializeComponent browser groupIds (issuing ''x.e30'') initial)
       = \<lparr>isReader = False, isUploader = False, isAdmin = False\<rparr>
   \<and> split CHR ''.'' ''a.e30.c.d'' = [''a'', ''e30'', ''c'', ''d'']
   \<and> decodeToken browser ''a.e30.c.d'' = Inr (JObject [])
   \<and> error (initializeComponent browser groupIds (issuing ''a.e30.c.d'') initial)
       = Some ''You do not have permission to access files.''"
proof -
  have s2: "split CHR ''.'' ''x.e30'' = [''x'', ''e30'']"
    and s4: "split CHR ''.'' ''a.e30.c.d'' = [''a'', ''e30'', ''c'', ''d'']"
    by code_simp+
  have d2: "decodeToken browser ''x.e30'' = Inr (JObject [])"
    and d4: "decodeToken browser ''a.e30.c.d'' = Inr (JObject [])"
    by code_simp+
  have i: "initializeComponent browser groupIds (issuing t) initial
             = initial\<lparr>calls := [AcquireTokenSilent],
                       userRoles := \<lparr>isReader = False, isUploader = False, isAdmin = False\<rparr>,
                       error := Some ''You do not have permission to access files.''\<rparr>"
    if "decodeToken browser t = Inr (JObject [])" for t
    using that
    by (simp add: initializeComponent_def getAccessToken_def issuing_def groupsOf_def
          deriveRoles_def js_includes_def groupIds_def initial_def Let_def)
  show ?thesis
    using s2 s4 d2 d4 by (simp add: i)
qed

end
